theory Spec2Isabelle
  imports Main "HOL-Library.AList"
begin

section \<open>JavaScript values, objects and errors\<close>

text \<open>
  The values that flow through \<^verbatim>\<open>src/index.js\<close>: \<^verbatim>\<open>undefined\<close>, \<^verbatim>\<open>null\<close>, booleans, numbers
  (the integral ones: a year, an exit code), strings and arrays.
\<close>

datatype jsval = JUndefined | JNull | JBool bool | JNum int | JStr string | JArr "jsval list"

definition digit_char :: "nat \<Rightarrow> char" where
  "digit_char d = ''0123456789'' ! (d mod 10)"

fun show_nat :: "nat \<Rightarrow> string" where
  "show_nat n = (if n < 10 then [digit_char n] else show_nat (n div 10) @ [digit_char n])"

declare show_nat.simps [simp del]

definition show_int :: "int \<Rightarrow> string" where
  "show_int i = (if i < 0 then CHR ''-'' # show_nat (nat (- i)) else show_nat (nat i))"

fun join_comma :: "string list \<Rightarrow> string" where
  "join_comma [] = []"
| "join_comma [s] = s"
| "join_comma (s # t # ss) = s @ '','' @ join_comma (t # ss)"

text \<open>What a template literal \<^verbatim>\<open>`${v}`\<close> makes of a value.\<close>

fun js_str :: "jsval \<Rightarrow> string" where
  "js_str JUndefined = ''undefined''"
| "js_str JNull = ''null''"
| "js_str (JBool b) = (if b then ''true'' else ''false'')"
| "js_str (JNum n) = show_int n"
| "js_str (JStr s) = s"
| "js_str (JArr xs) = join_comma (map (\<lambda>x. if x = JUndefined \<or> x = JNull then [] else js_str x) xs)"

text \<open>Truthiness, as \<^verbatim>\<open>?:\<close>, \<^verbatim>\<open>&&\<close> and \<^verbatim>\<open>||\<close> test it.\<close>

fun truthy :: "jsval \<Rightarrow> bool" where
  "truthy JUndefined = False"
| "truthy JNull = False"
| "truthy (JBool b) = b"
| "truthy (JNum n) = (n \<noteq> 0)"
| "truthy (JStr s) = (s \<noteq> [])"
| "truthy (JArr xs) = True"

text \<open>
  An object is the list of its entries in insertion order, as \<^verbatim>\<open>Object.entries\<close>
  gives them; a key that is not there reads as \<^verbatim>\<open>undefined\<close>. Assigning a key
  replaces the entry in place or appends it (\<open>AList.update\<close>); the spread
  \<^verbatim>\<open>{...tgt, ...src}\<close> assigns the entries of \<open>src\<close> in order.
\<close>

type_synonym obj = "(string \<times> jsval) list"

definition obj_get :: "obj \<Rightarrow> string \<Rightarrow> jsval" where
  "obj_get ob k = (case map_of ob k of None \<Rightarrow> JUndefined | Some v \<Rightarrow> v)"

definition js_spread :: "(string \<times> 'v) list \<Rightarrow> (string \<times> 'v) list \<Rightarrow> (string \<times> 'v) list" where
  "js_spread tgt src = fold (\<lambda>cur acc. AList.update (fst cur) (snd cur) acc) src tgt"

text \<open>
  What the code throws or rejects with: \<^verbatim>\<open>new Error(message)\<close>, a Node system error
  with its \<^verbatim>\<open>code\<close>, an execa failure with its \<^verbatim>\<open>exitCode\<close> (\<^verbatim>\<open>undefined\<close> when the
  process never ran), or any other value.
\<close>

datatype jserr =
    Error string
  | SysError string
  | ExecaError "int option"
  | Thrown jsval

fun err_code :: "jserr \<Rightarrow> string option" where
  "err_code (SysError c) = Some c"
| "err_code e = None"

fun exitCode :: "jserr \<Rightarrow> int option" where
  "exitCode (ExecaError c) = c"
| "exitCode e = None"

section \<open>The option schema, the hook context and the caller's options\<close>

datatype prompt_policy = Always | IfNoArg | Never

record descriptor =
  d_type :: "string option"
  d_describe :: "string option"
  d_default :: jsval
  d_prompt :: "prompt_policy option"
  d_choices :: "string list option"

type_synonym schema = "(string \<times> descriptor) list"

record license_params =
  lp_year :: int
  lp_project :: string
  lp_description :: jsval
  lp_organization :: string

text \<open>
  What \<^verbatim>\<open>makeLicenseSync\<close> of license.js returns: the body of the license under \<^verbatim>\<open>text\<close>,
  a string that every license has (line 229 interpolates it as it is), and a \<^verbatim>\<open>header\<close>
  and a \<^verbatim>\<open>warranty\<close> that a license may lack.
\<close>

record license =
  lic_header :: "string option"
  lic_text :: string
  lic_warranty :: "string option"

text \<open>
  \<^verbatim>\<open>afterHookOptions\<close> (lines 285-297), without its two callables \<^verbatim>\<open>run\<close> and
  \<^verbatim>\<open>installNpmPackage\<close>: a hook and a caveat function are modelled by what they
  return or throw for the data they are given.
\<close>

record hook_ctx =
  ctx_name :: string
  ctx_projectDir :: string
  ctx_template :: jsval
  ctx_templateDir :: string
  ctx_year :: int
  ctx_answers :: obj

datatype caveat =
    CaveatString string
  | CaveatFunction "hook_ctx \<Rightarrow> jserr + string option"
  | CaveatOther

record options =
  opt_templateRoot :: string
  opt_templatePrefix :: "string option"
  opt_promptForTemplate :: "bool option"
  opt_defaultTemplate :: "string option"
  opt_skipLicense :: bool
  opt_skipGit :: bool
  opt_modifyName :: "(string \<Rightarrow> jserr + string) option"
  opt_defaultPath :: "string option"
  opt_extra :: "schema option"
  opt_after :: "(hook_ctx \<Rightarrow> jserr option) option"
  opt_caveat :: "caveat option"

section \<open>The outside world and the trace of calls\<close>

text \<open>
  Everything \<^verbatim>\<open>create\<close> asks of its collaborators (the command line, the clock, the
  file system, git, the prompt engine, \<^verbatim>\<open>./template.js\<close>, license.js, the child
  processes) is an input of the model: a field gives the answer to a call from its
  arguments. \<open>None\<close> in a \<open>jserr option\<close> is a call that succeeded.
\<close>

record env =
  argv2 :: "string option"
  now_year :: int
  path_basename :: "string \<Rightarrow> string"
  path_resolve :: "string \<Rightarrow> string list \<Rightarrow> string"
  chalk_green :: "string \<Rightarrow> string"
  chalk_bold_cyan :: "string \<Rightarrow> string"
  fs_readdir :: "string \<Rightarrow> jserr + string list"
  fs_stat :: "string \<Rightarrow> jserr option"
  fs_writeFile :: "string \<Rightarrow> string \<Rightarrow> jserr option"
  process_chdir :: "string \<Rightarrow> jserr option"
  gitconfig_get :: "jserr + obj option"
  getAvailableTemplates :: "string \<Rightarrow> string \<Rightarrow> jserr + string list"
  availableLicenses :: "string list"
  yargsInteractive :: "schema \<Rightarrow> jserr + obj"
  template_copy :: "string \<Rightarrow> string \<Rightarrow> obj \<Rightarrow> jserr option"
  makeLicenseSync :: "jsval \<Rightarrow> license_params \<Rightarrow> jserr + license"
  execa_yarnpkg_version :: "jserr option"
  spawn_close :: "string \<Rightarrow> string list \<Rightarrow> string \<Rightarrow> int option"
  execa_git_init :: "string \<Rightarrow> jserr option"

text \<open>
  One event per call that leaves the program, in the order the calls are made.
  \<open>Spawn\<close> carries the command, its arguments and the working directory of the
  process at that moment.
\<close>

datatype event =
    ConsoleLog string
  | ModifyName string
  | ReadDir string
  | GitConfigGet
  | GetAvailableTemplates string string
  | Prompt schema
  | Stat string
  | Copy string string obj
  | MakeLicense jsval license_params
  | WriteFile string string
  | YarnVersion
  | Chdir string
  | Spawn string "string list" string
  | GitInit string
  | HookCall hook_ctx
  | CaveatCall hook_ctx

text \<open>
  An asynchronous computation is its outcome (\<open>Inl\<close> what it threw or rejected with,
  \<open>Inr\<close> what it resolved to) and the calls it made. \<open>bind\<close> is \<^verbatim>\<open>await\<close> followed by
  the rest of the function; \<open>catch\<close> is \<^verbatim>\<open>try { ... } catch (e) { ... }\<close>.
\<close>

type_synonym 'a res = "(jserr + 'a) \<times> event list"

definition ret :: "'a \<Rightarrow> 'a res" where
  "ret x = (Inr x, [])"

definition throw :: "jserr \<Rightarrow> 'a res" where
  "throw e = (Inl e, [])"

definition bind :: "'a res \<Rightarrow> ('a \<Rightarrow> 'b res) \<Rightarrow> 'b res" where
  "bind m f =
     (case m of
        (Inl e, evs) \<Rightarrow> (Inl e, evs)
      | (Inr x, evs) \<Rightarrow> (case f x of (r, evs') \<Rightarrow> (r, evs @ evs')))"

definition catch :: "'a res \<Rightarrow> (jserr \<Rightarrow> 'a res) \<Rightarrow> 'a res" where
  "catch m h =
     (case m of
        (Inl e, evs) \<Rightarrow> (case h e of (r, evs') \<Rightarrow> (r, evs @ evs'))
      | (Inr x, evs) \<Rightarrow> (Inr x, evs))"

definition call :: "event \<Rightarrow> jserr + 'a \<Rightarrow> 'a res" where
  "call ev answer = (answer, [ev])"

definition call_unit :: "event \<Rightarrow> jserr option \<Rightarrow> unit res" where
  "call_unit ev answer = ((case answer of None \<Rightarrow> Inr () | Some e \<Rightarrow> Inl e), [ev])"

definition console_log :: "string \<Rightarrow> unit res" where
  "console_log s = (Inr (), [ConsoleLog s])"

section \<open>The functions of \<^verbatim>\<open>src/index.js\<close>\<close>

text \<open>\<^verbatim>\<open>getGitUser\<close> (lines 15-22): \<^verbatim>\<open>config.user || {}\<close>, and \<^verbatim>\<open>{}\<close> on any error.\<close>

definition getGitUser :: "env \<Rightarrow> obj res" where
  "getGitUser w =
     catch
       (bind (call GitConfigGet (gitconfig_get w)) (\<lambda>config_user.
          ret (case config_user of None \<Rightarrow> [] | Some u \<Rightarrow> u)))
       (\<lambda>err. ret [])"

text \<open>
  \<^verbatim>\<open>spawnPromise\<close> (lines 24-38): resolves with the close code when it is \<^verbatim>\<open>0\<close>, rejects
  with the code (a number, or \<^verbatim>\<open>null\<close> for a child killed by a signal) otherwise.
\<close>

definition spawnPromise ::
  "env \<Rightarrow> string \<Rightarrow> string list \<Rightarrow> string \<Rightarrow> (jsval + int) \<times> event list" where
  "spawnPromise w command args cwd =
     (case spawn_close w command args cwd of
        None \<Rightarrow> (Inl JNull, [Spawn command args cwd])
      | Some code \<Rightarrow>
          if code \<noteq> 0 then (Inl (JNum code), [Spawn command args cwd])
          else (Inr code, [Spawn command args cwd]))"

text \<open>
  \<^verbatim>\<open>installDeps\<close> (lines 40-56). The working directory of the process is global state:
  the function takes it and returns it, changed by \<^verbatim>\<open>process.chdir\<close> on the npm path
  (which throws, outside the \<^verbatim>\<open>try\<close>, when the directory cannot be entered).
\<close>

definition installDeps :: "env \<Rightarrow> string \<Rightarrow> bool \<Rightarrow> string \<Rightarrow> unit res \<times> string" where
  "installDeps w rootDir useYarn cwd =
     (let run_install = (\<lambda>command args dir.
            case spawnPromise w command args dir of
              (Inl err, evs) \<Rightarrow> (Inl (Error (''installDeps failed: '' @ js_str err)), evs)
            | (Inr code, evs) \<Rightarrow> (Inr (), evs))
      in if useYarn then (run_install ''yarnpkg'' [''install'', ''--cwd'', rootDir] cwd, cwd)
         else (case process_chdir w rootDir of
                 Some e \<Rightarrow> ((Inl e, [Chdir rootDir]), cwd)
               | None \<Rightarrow>
                   (bind (Inr (), [Chdir rootDir]) (\<lambda>u. run_install ''npm'' [''install''] rootDir),
                    rootDir)))"

text \<open>\<^verbatim>\<open>IsYarnAvailable\<close> (lines 58-65).\<close>

definition IsYarnAvailable :: "env \<Rightarrow> bool res" where
  "IsYarnAvailable w =
     catch (bind (call_unit YarnVersion (execa_yarnpkg_version w)) (\<lambda>u. ret True))
           (\<lambda>e. ret False)"

text \<open>\<^verbatim>\<open>exists\<close> (lines 67-76); \<open>cwd\<close> is what \<^verbatim>\<open>path.resolve\<close> resolves against.\<close>

definition exists :: "env \<Rightarrow> string \<Rightarrow> string \<Rightarrow> string \<Rightarrow> bool res" where
  "exists w cwd filePath baseDir =
     (let p = path_resolve w cwd [baseDir, filePath] in
      catch (bind (call_unit (Stat p) (fs_stat w p)) (\<lambda>u. ret True))
            (\<lambda>err. if err_code err = Some ''ENOENT'' then ret False else throw err))"

text \<open>\<^verbatim>\<open>initGit\<close> (lines 78-80).\<close>

definition initGit :: "env \<Rightarrow> string \<Rightarrow> unit res" where
  "initGit w root = call_unit (GitInit root) (execa_git_init w root)"

text \<open>\<^verbatim>\<open>getContact\<close> (lines 82-84).\<close>

definition getContact :: "jsval \<Rightarrow> jsval \<Rightarrow> string" where
  "getContact author email =
     js_str author @ (if truthy email then '' <'' @ js_str email @ ''>'' else [])"

text \<open>\<^verbatim>\<open>isEmptyDir\<close> (lines 86-97).\<close>

definition isEmptyDir :: "env \<Rightarrow> string \<Rightarrow> bool res" where
  "isEmptyDir w dirname =
     catch
       (bind (call (ReadDir dirname) (fs_readdir w dirname)) (\<lambda>entries.
          ret (length entries = 0)))
       (\<lambda>err. if err_code err = Some ''ENOENT'' then ret True else throw err)"

text \<open>
  \<^verbatim>\<open>getYargsOptions\<close> (lines 99-147). \<^verbatim>\<open>extraOptions\<close> defaults to \<^verbatim>\<open>{}\<close> and is spread
  last, over the six entries of the literal.
\<close>

definition getYargsOptions ::
  "env \<Rightarrow> string \<Rightarrow> string \<Rightarrow> bool \<Rightarrow> string \<Rightarrow> bool \<Rightarrow> schema option \<Rightarrow> schema res" where
  "getYargsOptions w templateRoot templatePrefix promptForTemplate defaultTemplate skipLicense
       extraOptions =
     bind (getGitUser w) (\<lambda>gitUser.
     bind (call (GetAvailableTemplates templateRoot templatePrefix)
             (getAvailableTemplates w templateRoot templatePrefix)) (\<lambda>availableTemplates.
     let isMultipleTemplates = (length availableTemplates > 1);
         askForTemplate = (isMultipleTemplates \<and> promptForTemplate)
     in ret (js_spread
          [(''interactive'',
              \<lparr>d_type = None, d_describe = None, d_default = JBool True,
               d_prompt = None, d_choices = None\<rparr>),
           (''description'',
              \<lparr>d_type = Some ''input'', d_describe = Some ''description'',
               d_default = JStr ''description'',
               d_prompt = Some (if skipLicense then Never else IfNoArg), d_choices = None\<rparr>),
           (''author'',
              \<lparr>d_type = Some ''input'', d_describe = Some ''author name'',
               d_default = obj_get gitUser ''name'',
               d_prompt = Some (if skipLicense then Never else IfNoArg), d_choices = None\<rparr>),
           (''email'',
              \<lparr>d_type = Some ''input'', d_describe = Some ''author email'',
               d_default = obj_get gitUser ''email'',
               d_prompt = Some (if skipLicense then Never else IfNoArg), d_choices = None\<rparr>),
           (''template'',
              \<lparr>d_type = Some ''list'', d_describe = Some ''template'',
               d_default = JStr defaultTemplate,
               d_prompt = Some (if askForTemplate then IfNoArg else Never),
               d_choices = Some availableTemplates\<rparr>),
           (''license'',
              \<lparr>d_type = Some ''list'', d_describe = Some ''license'',
               d_default = JUndefined,
               d_prompt = Some (if skipLicense then Never else IfNoArg),
               d_choices = Some (availableLicenses w @ [''UNLICENSED''])\<rparr>)]
          (case extraOptions of None \<Rightarrow> [] | Some e \<Rightarrow> e))))"

subsection \<open>\<^verbatim>\<open>create\<close> (lines 149-322)\<close>

text \<open>Lines 155-165: \<^verbatim>\<open>name\<close> and \<^verbatim>\<open>projectDir\<close>. An empty \<^verbatim>\<open>defaultPath\<close> is falsy.\<close>

definition create_name :: "env \<Rightarrow> options \<Rightarrow> string \<Rightarrow> string \<Rightarrow> string res" where
  "create_name w opts cwd firstArg =
     (let useCurrentDir = (firstArg = ''.'') in
      if useCurrentDir then ret (path_basename w cwd)
      else (case opt_modifyName opts of
              Some f \<Rightarrow> call (ModifyName firstArg) (f firstArg)
            | None \<Rightarrow> ret firstArg))"

definition create_projectDir :: "env \<Rightarrow> options \<Rightarrow> string \<Rightarrow> string \<Rightarrow> string \<Rightarrow> string" where
  "create_projectDir w opts cwd firstArg name =
     (let useCurrentDir = (firstArg = ''.'') in
      if useCurrentDir then cwd
      else (case opt_defaultPath opts of
              Some d \<Rightarrow>
                if d \<noteq> [] then path_resolve w cwd [d @ ''/'' @ name]
                else path_resolve w cwd [name]
            | None \<Rightarrow> path_resolve w cwd [name]))"

text \<open>
  Lines 195-203: the entries of \<^verbatim>\<open>args\<close> whose key matches \<^verbatim>\<open>/^[^$_]/\<close> (a first
  character, other than \<^verbatim>\<open>$\<close> and \<^verbatim>\<open>_\<close>) and is neither \<^verbatim>\<open>interactive\<close> nor
  \<^verbatim>\<open>template\<close>, reduced into a fresh object.
\<close>

definition key_kept :: "string \<Rightarrow> bool" where
  "key_kept k =
     ((case k of [] \<Rightarrow> False | c # cs \<Rightarrow> c \<noteq> CHR ''$'' \<and> c \<noteq> CHR ''_'')
      \<and> k \<notin> set [''interactive'', ''template''])"

definition filteredArgs :: "obj \<Rightarrow> obj" where
  "filteredArgs args =
     fold (\<lambda>cur sum. AList.update (fst cur) (snd cur) sum)
       (filter (\<lambda>arg. key_kept (fst arg)) args) []"

text \<open>Lines 205-210: \<^verbatim>\<open>{ ...filteredArgs, name, year, contact }\<close>.\<close>

definition view :: "obj \<Rightarrow> string \<Rightarrow> int \<Rightarrow> string \<Rightarrow> obj" where
  "view filtered name year contact =
     AList.update ''contact'' (JStr contact)
       (AList.update ''year'' (JNum year)
          (AList.update ''name'' (JStr name) (js_spread [] filtered)))"

text \<open>Line 229: the text of the LICENSE file; \<^verbatim>\<open>x && x || ''\<close> is \<open>or_empty\<close>.\<close>

definition or_empty :: "string option \<Rightarrow> string" where
  "or_empty v = (case v of None \<Rightarrow> [] | Some s \<Rightarrow> if s \<noteq> [] then s else [])"

definition licenseText :: "license \<Rightarrow> string" where
  "licenseText license =
     or_empty (lic_header license) @ lic_text license @ or_empty (lic_warranty license)"

text \<open>
  Lines 304-321: the success message and the caveat. An empty caveat string and an
  empty response are falsy.
\<close>

definition create_report :: "env \<Rightarrow> options \<Rightarrow> string \<Rightarrow> hook_ctx \<Rightarrow> unit res" where
  "create_report w opts name afterHookOptions =
     bind (console_log (''\<newline>Success! Created '' @ chalk_bold_cyan w name @ ''.'')) (\<lambda>u.
     (case opt_caveat opts of
        None \<Rightarrow> ret ()
      | Some (CaveatString s) \<Rightarrow> if s \<noteq> [] then console_log s else ret ()
      | Some (CaveatFunction f) \<Rightarrow>
          bind (call (CaveatCall afterHookOptions) (f afterHookOptions)) (\<lambda>response.
            case response of
              Some r \<Rightarrow> if r \<noteq> [] then console_log r else ret ()
            | None \<Rightarrow> ret ())
      | Some CaveatOther \<Rightarrow> ret ()))"

text \<open>Lines 254-302: the hook context and the \<^verbatim>\<open>after\<close> hook, then the report.\<close>

definition create_finish ::
  "env \<Rightarrow> options \<Rightarrow> string \<Rightarrow> string \<Rightarrow> jsval \<Rightarrow> string \<Rightarrow> int \<Rightarrow> obj \<Rightarrow> string \<Rightarrow> unit res" where
  "create_finish w opts name projectDir template templateDir year filtered contact =
     (let afterHookOptions =
            \<lparr>ctx_name = name, ctx_projectDir = projectDir, ctx_template = template,
             ctx_templateDir = templateDir, ctx_year = year,
             ctx_answers = AList.update ''contact'' (JStr contact) (js_spread [] filtered)\<rparr>
      in
      bind (case opt_after opts of
              Some hook \<Rightarrow> call_unit (HookCall afterHookOptions) (hook afterHookOptions)
            | None \<Rightarrow> ret ()) (\<lambda>u.
      create_report w opts name afterHookOptions))"

text \<open>
  Lines 220-252: the LICENSE file, the dependencies and git. A failed \<^verbatim>\<open>git init\<close>
  whose exit code is 127 ends \<^verbatim>\<open>create\<close> with the \<^verbatim>\<open>return\<close> of line 249.
\<close>

definition create_setup ::
  "env \<Rightarrow> options \<Rightarrow> string \<Rightarrow> string \<Rightarrow> string \<Rightarrow> obj \<Rightarrow> jsval \<Rightarrow> string \<Rightarrow> int \<Rightarrow> obj \<Rightarrow> string
     \<Rightarrow> unit res" where
  "create_setup w opts cwd name projectDir args template templateDir year filtered contact =
     bind (if \<not> opt_skipLicense opts then
             catch
               (bind (call (MakeLicense (obj_get args ''license'')
                              \<lparr>lp_year = year, lp_project = name,
                               lp_description = obj_get args ''description'',
                               lp_organization =
                                 getContact (obj_get args ''author'') (obj_get args ''email'')\<rparr>)
                        (makeLicenseSync w (obj_get args ''license'')
                              \<lparr>lp_year = year, lp_project = name,
                               lp_description = obj_get args ''description'',
                               lp_organization =
                                 getContact (obj_get args ''author'') (obj_get args ''email'')\<rparr>))
                  (\<lambda>license.
                     let file = path_resolve w cwd [projectDir, ''LICENSE'']
                     in call_unit (WriteFile file (licenseText license))
                          (fs_writeFile w file (licenseText license))))
               (\<lambda>e. ret ())
           else ret ()) (\<lambda>u.
     bind (IsYarnAvailable w) (\<lambda>useYarn.
     bind (exists w cwd ''package.json'' projectDir) (\<lambda>has_manifest.
     bind (if has_manifest then
             bind (console_log ''Installing dependencies.'') (\<lambda>u.
               fst (installDeps w projectDir useYarn cwd))
           else ret ()) (\<lambda>u.
     if \<not> opt_skipGit opts then
       (case initGit w projectDir of
          (Inr u, evs) \<Rightarrow>
            bind (Inr (), evs @ [ConsoleLog ''\<newline>Initialized a git repository'']) (\<lambda>u.
              create_finish w opts name projectDir template templateDir year filtered contact)
        | (Inl err, evs) \<Rightarrow>
            if exitCode err = Some 127 then (Inr (), evs) else (Inl err, evs))
     else create_finish w opts name projectDir template templateDir year filtered contact))))"

text \<open>
  Lines 173-218: the schema (always built with \<^verbatim>\<open>skipLicense = true\<close>), the prompt,
  the template directory, the view and the copy.
\<close>

definition create_configure :: "env \<Rightarrow> options \<Rightarrow> string \<Rightarrow> string \<Rightarrow> string \<Rightarrow> unit res" where
  "create_configure w opts cwd name projectDir =
     (let templateRoot = opt_templateRoot opts;
          templatePrefix = (case opt_templatePrefix opts of None \<Rightarrow> [] | Some p \<Rightarrow> p);
          promptForTemplate = (case opt_promptForTemplate opts of None \<Rightarrow> False | Some b \<Rightarrow> b);
          defaultTemplate = (case opt_defaultTemplate opts of None \<Rightarrow> ''default'' | Some t \<Rightarrow> t)
      in
      bind (getYargsOptions w templateRoot templatePrefix promptForTemplate defaultTemplate
              True (opt_extra opts)) (\<lambda>yargsOption.
      bind (call (Prompt yargsOption) (yargsInteractive w yargsOption)) (\<lambda>args.
      let template = obj_get args ''template'';
          templateDir = path_resolve w cwd [templateRoot, templatePrefix @ js_str template];
          year = now_year w;
          contact = getContact (obj_get args ''author'') (obj_get args ''email'')
      in
      bind (exists w cwd templateDir ''/'') (\<lambda>found.
      if \<not> found then throw (Error ''No template found'')
      else
        (let filtered = filteredArgs args;
             v = view filtered name year contact
         in
         bind (console_log
                 (''\<newline>Creating a new project in '' @ chalk_green w projectDir @ ''.\<newline>''))
           (\<lambda>u.
         bind (call_unit (Copy projectDir templateDir v)
                 (template_copy w projectDir templateDir v)) (\<lambda>u.
         create_setup w opts cwd name projectDir args template templateDir year filtered
           contact)))))))"

text \<open>
  Lines 149-171: the first argument, the name, the announcement and the check of the
  destination. \<open>cwd\<close> is the working directory of the process when \<^verbatim>\<open>create\<close> is called.
\<close>

definition create :: "env \<Rightarrow> string \<Rightarrow> options \<Rightarrow> string \<Rightarrow> unit res" where
  "create w appName opts cwd =
     (case argv2 w of
        None \<Rightarrow> console_log (''Usage: '' @ appName @ '' <project_name> [args]'')
      | Some firstArg \<Rightarrow>
          bind (create_name w opts cwd firstArg) (\<lambda>name.
          let projectDir = create_projectDir w opts cwd firstArg name in
          bind (console_log
                  (''\<newline>New project will be created in '' @ chalk_green w projectDir
                     @ ''.\<newline>'')) (\<lambda>u.
          bind (isEmptyDir w projectDir) (\<lambda>empty.
          if \<not> empty then throw (Error (projectDir @ '' is not empty.''))
          else create_configure w opts cwd name projectDir))))"

section \<open>Reading a schema and a trace\<close>

text \<open>\<^verbatim>\<open>schema[k].prompt\<close>, and the schemas a trace hands to the prompt engine.\<close>

definition prompt_of :: "schema \<Rightarrow> string \<Rightarrow> prompt_policy option" where
  "prompt_of s k = (case map_of s k of None \<Rightarrow> None | Some d \<Rightarrow> d_prompt d)"

fun schemas_prompted :: "event list \<Rightarrow> schema list" where
  "schemas_prompted [] = []"
| "schemas_prompted (Prompt s # evs) = s # schemas_prompted evs"
| "schemas_prompted (ev # evs) = schemas_prompted evs"

text \<open>
  A hook that fails ends the run: whenever the trace of \<open>m\<close> holds a call of the hook
  that the hook answers with an error, that error is the outcome of \<open>m\<close> and the call is
  the last event of the trace, the only call of the hook in it.
\<close>

definition hook_failure_last :: "(hook_ctx \<Rightarrow> jserr option) \<Rightarrow> unit res \<Rightarrow> bool" where
  "hook_failure_last hook m =
     (\<forall>ctx e. HookCall ctx \<in> set (snd m) \<and> hook ctx = Some e \<longrightarrow>
        fst m = Inl e \<and> (\<exists>pre. snd m = pre @ [HookCall ctx] \<and> (\<forall>c. HookCall c \<notin> set pre)))"

text \<open>
  A failed \<^verbatim>\<open>git init\<close> ends the run too: whenever the trace of \<open>m\<close> holds a \<^verbatim>\<open>git init\<close>
  that fails, it is the last event of the trace and the only \<^verbatim>\<open>git init\<close>, and \<open>m\<close>
  resolves when the exit code is 127 and rejects with the failure otherwise.
\<close>

definition git_failure_last :: "env \<Rightarrow> unit res \<Rightarrow> bool" where
  "git_failure_last w m =
     (\<forall>root err. GitInit root \<in> set (snd m) \<and> execa_git_init w root = Some err \<longrightarrow>
        fst m = (if exitCode err = Some 127 then Inr () else Inl err)
        \<and> (\<exists>pre. snd m = pre @ [GitInit root] \<and> (\<forall>r. GitInit r \<notin> set pre)))"

section \<open>A concrete world\<close>

text \<open>
  A POSIX-like \<^verbatim>\<open>path.resolve\<close> without normalisation and \<^verbatim>\<open>path.basename\<close>, and a
  machine with npm, git, one template \<^verbatim>\<open>default\<close> under \<^verbatim>\<open>/tpl\<close> and no directory
  \<^verbatim>\<open>/home/ada/demo\<close> yet. The theorems below are instantiated on it.
\<close>

definition ex_resolve :: "string \<Rightarrow> string list \<Rightarrow> string" where
  "ex_resolve cwd segs =
     foldl (\<lambda>acc seg. case seg of
                         [] \<Rightarrow> acc
                       | c # cs \<Rightarrow> if c = CHR ''/'' then seg else acc @ ''/'' @ seg)
       cwd segs"

definition ex_basename :: "string \<Rightarrow> string" where
  "ex_basename p = rev (takeWhile (\<lambda>c. c \<noteq> CHR ''/'') (rev p))"

definition ex_args :: obj where
  "ex_args =
     [(''_'', JArr [JStr ''demo'']), (''$0'', JStr ''app''), (''interactive'', JBool True),
      (''description'', JStr ''a demo''), (''author'', JStr ''Ada''),
      (''email'', JStr ''ada@example.org''), (''template'', JStr ''default''),
      (''license'', JStr ''MIT'')]"

definition ex_env :: env where
  "ex_env =
     \<lparr>argv2 = Some ''demo'',
      now_year = 2026,
      path_basename = ex_basename,
      path_resolve = ex_resolve,
      chalk_green = (\<lambda>s. s),
      chalk_bold_cyan = (\<lambda>s. s),
      fs_readdir = (\<lambda>d. Inl (SysError ''ENOENT'')),
      fs_stat = (\<lambda>p. if p = ''/tpl/default'' then None else Some (SysError ''ENOENT'')),
      fs_writeFile = (\<lambda>p t. None),
      process_chdir = (\<lambda>d. None),
      gitconfig_get = Inr (Some [(''name'', JStr ''Ada''), (''email'', JStr ''ada@example.org'')]),
      getAvailableTemplates = (\<lambda>root prefix. Inr [''default'']),
      availableLicenses = [''MIT''],
      yargsInteractive = (\<lambda>s. Inr ex_args),
      template_copy = (\<lambda>projectDir templateDir v. None),
      makeLicenseSync = (\<lambda>l p. Inr \<lparr>lic_header = None, lic_text = ''MIT License'',
                                      lic_warranty = None\<rparr>),
      execa_yarnpkg_version = Some (ExecaError None),
      spawn_close = (\<lambda>command args cwd. Some 0),
      execa_git_init = (\<lambda>root. None)\<rparr>"

definition ex_opts :: options where
  "ex_opts =
     \<lparr>opt_templateRoot = ''/tpl'', opt_templatePrefix = None, opt_promptForTemplate = None,
      opt_defaultTemplate = None, opt_skipLicense = False, opt_skipGit = False,
      opt_modifyName = None, opt_defaultPath = None, opt_extra = None, opt_after = None,
      opt_caveat = None\<rparr>"

section \<open>Evaluating the combinators and the probes\<close>

lemma bind_Inl [simp]: "bind (Inl e, evs) f = (Inl e, evs)"
  by (simp add: bind_def)

lemma bind_Inr [simp]: "bind (Inr x, evs) f = (fst (f x), evs @ snd (f x))"
  by (simp add: bind_def split: prod.split)

lemma catch_Inl [simp]: "catch (Inl e, evs) h = (fst (h e), evs @ snd (h e))"
  by (simp add: catch_def split: prod.split)

lemma catch_Inr [simp]: "catch (Inr x, evs) h = (Inr x, evs)"
  by (simp add: catch_def)

lemmas prim_defs = ret_def throw_def call_def call_unit_def console_log_def

lemma isEmptyDir_eq:
  "isEmptyDir w d =
     ((case fs_readdir w d of
         Inr entries \<Rightarrow> Inr (entries = [])
       | Inl err \<Rightarrow> if err_code err = Some ''ENOENT'' then Inr True else Inl err),
      [ReadDir d])"
  by (simp add: isEmptyDir_def prim_defs split: sum.split)

lemma exists_eq:
  "exists w cwd filePath baseDir =
     ((case fs_stat w (path_resolve w cwd [baseDir, filePath]) of
         None \<Rightarrow> Inr True
       | Some err \<Rightarrow> if err_code err = Some ''ENOENT'' then Inr False else Inl err),
      [Stat (path_resolve w cwd [baseDir, filePath])])"
  by (simp add: exists_def prim_defs Let_def split: option.split)

lemma getGitUser_eq:
  "getGitUser w =
     (Inr (case gitconfig_get w of Inl e \<Rightarrow> [] | Inr None \<Rightarrow> [] | Inr (Some u) \<Rightarrow> u),
      [GitConfigGet])"
  by (simp add: getGitUser_def prim_defs split: sum.split option.split)

section \<open>Objects as association lists\<close>

lemma map_of_fold_update:
  "map_of (fold (\<lambda>cur acc. AList.update (fst cur) (snd cur) acc) xs acc)
     = map_of acc ++ map_of (rev xs)"
proof (induction xs arbitrary: acc)
  case Nil
  show ?case by simp
next
  case (Cons x xs)
  show ?case
    by (cases x) (auto simp: Cons.IH update_conv' map_add_def fun_eq_iff split: option.split)
qed

lemma map_of_rev_distinct: "distinct (map fst xs) \<Longrightarrow> map_of (rev xs) = map_of xs"
proof (induction xs)
  case Nil
  show ?case by simp
next
  case (Cons x xs)
  obtain k v where x: "x = (k, v)" by (cases x)
  from Cons.prems x have "k \<notin> dom (map_of xs)"
    by (simp add: dom_map_of_conv_image_fst)
  then have "map_of xs k = None" by blast
  with Cons x show ?case
    by (auto simp: map_add_def fun_eq_iff split: option.split)
qed

lemma distinct_fold_update:
  "distinct (map fst acc) \<Longrightarrow>
   distinct (map fst (fold (\<lambda>cur acc. AList.update (fst cur) (snd cur) acc) xs acc))"
  by (induction xs arbitrary: acc) (simp_all add: distinct_update)

lemma map_of_filter_key:
  "map_of (filter (\<lambda>arg. P (fst arg)) xs) k = (if P k then map_of xs k else None)"
  by (induction xs) auto

lemma map_of_js_spread_other:
  "k \<notin> fst ` set src \<Longrightarrow> map_of (js_spread tgt src) k = map_of tgt k"
  by (induction src arbitrary: tgt) (simp_all add: js_spread_def update_conv')

lemma map_of_js_spread_defined:
  assumes "distinct (map fst src)" and "map_of src k = Some d"
  shows "map_of (js_spread tgt src) k = Some d"
  using assms by (simp add: js_spread_def map_of_fold_update map_of_rev_distinct)

lemma map_of_filteredArgs:
  assumes "distinct (map fst args)"
  shows "map_of (filteredArgs args) k = (if key_kept k then map_of args k else None)"
proof -
  have "distinct (map fst (filter (\<lambda>arg. key_kept (fst arg)) args))"
    using assms by (simp add: distinct_map_filter)
  then show ?thesis
    by (simp add: filteredArgs_def map_of_fold_update map_of_rev_distinct map_of_filter_key)
qed

lemma map_of_js_spread_filteredArgs:
  assumes "distinct (map fst args)"
  shows "map_of (js_spread [] (filteredArgs args)) k
           = (if key_kept k then map_of args k else None)"
proof -
  have "distinct (map fst (filteredArgs args))"
    unfolding filteredArgs_def by (rule distinct_fold_update) simp
  then show ?thesis
    using assms
    by (simp add: js_spread_def map_of_fold_update map_of_rev_distinct map_of_filteredArgs)
qed

lemma key_kept_iff:
  "key_kept k \<longleftrightarrow>
     k \<noteq> [] \<and> hd k \<noteq> CHR ''$'' \<and> hd k \<noteq> CHR ''_'' \<and> k \<noteq> ''interactive'' \<and> k \<noteq> ''template''"
  by (cases k) (auto simp: key_kept_def)

section \<open>Traces\<close>

lemma fst_bind:
  "fst (bind m f) = (case fst m of Inl e \<Rightarrow> Inl e | Inr x \<Rightarrow> fst (f x))"
  by (cases m) (auto simp: bind_def split: sum.split prod.split)

lemma snd_bind:
  "snd (bind m f) = snd m @ (case fst m of Inl e \<Rightarrow> [] | Inr x \<Rightarrow> snd (f x))"
  by (cases m) (auto simp: bind_def split: sum.split prod.split)

lemma IsYarnAvailable_eq:
  "IsYarnAvailable w = (Inr (execa_yarnpkg_version w = None), [YarnVersion])"
  by (simp add: IsYarnAvailable_def prim_defs split: option.split)

lemma getYargsOptions_events:
  "snd (getYargsOptions w templateRoot templatePrefix promptForTemplate defaultTemplate
          skipLicense extraOptions)
     = [GitConfigGet, GetAvailableTemplates templateRoot templatePrefix]"
  by (simp add: getYargsOptions_def getGitUser_eq prim_defs Let_def snd_bind split: sum.split)

lemma installDeps_events:
  "ev \<in> set (snd (fst (installDeps w rootDir useYarn cwd))) \<Longrightarrow>
   ev = Chdir rootDir \<or> (\<exists>command args dir. ev = Spawn command args dir)"
  by (auto simp: installDeps_def spawnPromise_def split: option.splits prod.splits if_splits)

lemma create_name_events:
  "set (snd (create_name w opts cwd firstArg)) \<subseteq> {ModifyName firstArg}"
  by (simp add: create_name_def prim_defs Let_def split: option.split)

lemma schemas_prompted_append [simp]:
  "schemas_prompted (xs @ ys) = schemas_prompted xs @ schemas_prompted ys"
  by (induction xs rule: schemas_prompted.induct) simp_all

lemma schemas_prompted_bind:
  "schemas_prompted (snd (bind m f))
     = schemas_prompted (snd m)
       @ (case fst m of Inl e \<Rightarrow> [] | Inr x \<Rightarrow> schemas_prompted (snd (f x)))"
  by (cases m) (auto simp: bind_def split: sum.split prod.split)

lemma schemas_prompted_catch:
  "schemas_prompted (snd (catch m h))
     = schemas_prompted (snd m)
       @ (case fst m of Inl e \<Rightarrow> schemas_prompted (snd (h e)) | Inr x \<Rightarrow> [])"
  by (cases m) (auto simp: catch_def split: sum.split prod.split)

lemma schemas_prompted_none:
  "(\<And>s. Prompt s \<notin> set evs) \<Longrightarrow> schemas_prompted evs = []"
  by (induction evs rule: schemas_prompted.induct) auto

lemma create_report_events:
  "ev \<in> set (snd (create_report w opts name afterHookOptions)) \<Longrightarrow>
   (\<exists>s. ev = ConsoleLog s) \<or> ev = CaveatCall afterHookOptions"
  by (auto simp: create_report_def prim_defs snd_bind
      split: option.splits caveat.splits sum.splits if_splits)

lemma create_finish_events:
  "ev \<in> set (snd (create_finish w opts name projectDir template templateDir year filtered
                      contact)) \<Longrightarrow>
   (\<exists>s. ev = ConsoleLog s) \<or> (\<exists>c. ev = CaveatCall c) \<or> (\<exists>c. ev = HookCall c)"
  by (auto simp: create_finish_def Let_def prim_defs snd_bind
      dest!: create_report_events split: option.splits sum.splits)

lemma schemas_prompted_create_finish:
  "schemas_prompted
     (snd (create_finish w opts name projectDir template templateDir year filtered contact)) = []"
  by (rule schemas_prompted_none) (auto dest: create_finish_events)

lemma schemas_prompted_installDeps:
  "schemas_prompted (snd (fst (installDeps w rootDir useYarn cwd))) = []"
  by (rule schemas_prompted_none) (auto dest: installDeps_events)

lemma schemas_prompted_create_setup:
  "schemas_prompted
     (snd (create_setup w opts cwd name projectDir args template templateDir year filtered
             contact)) = []"
  by (simp add: create_setup_def Let_def schemas_prompted_bind schemas_prompted_catch prim_defs
      IsYarnAvailable_eq exists_eq initGit_def schemas_prompted_installDeps
      schemas_prompted_create_finish
      split: option.split sum.split)


lemma fst_catch:
  "fst (catch m h) = (case fst m of Inl e \<Rightarrow> fst (h e) | Inr x \<Rightarrow> Inr x)"
  by (cases m) (auto simp: catch_def split: sum.split prod.split)

lemma snd_catch:
  "snd (catch m h) = snd m @ (case fst m of Inl e \<Rightarrow> snd (h e) | Inr x \<Rightarrow> [])"
  by (cases m) (auto simp: catch_def split: sum.split prod.split)

lemma schemas_prompted_create_configure:
  "schemas_prompted (snd (create_configure w opts cwd name projectDir))
     = (case fst (getYargsOptions w (opt_templateRoot opts)
                    (case opt_templatePrefix opts of None \<Rightarrow> [] | Some p \<Rightarrow> p)
                    (case opt_promptForTemplate opts of None \<Rightarrow> False | Some b \<Rightarrow> b)
                    (case opt_defaultTemplate opts of None \<Rightarrow> ''default'' | Some t \<Rightarrow> t)
                    True (opt_extra opts)) of
          Inl e \<Rightarrow> []
        | Inr yargsOption \<Rightarrow> [yargsOption])"
  by (simp add: create_configure_def Let_def schemas_prompted_bind getYargsOptions_events
      prim_defs exists_eq schemas_prompted_create_setup
      split: sum.split option.split)

lemma schemas_prompted_create_aux:
  assumes "\<And>name projectDir.
             schemas_prompted (snd (create_configure w opts cwd name projectDir)) = prompted"
  shows "schemas_prompted (snd (create w appName opts cwd)) = []
         \<or> schemas_prompted (snd (create w appName opts cwd)) = prompted"
proof -
  have "schemas_prompted (snd (create_name w opts cwd firstArg)) = []" for firstArg
    using create_name_events [of w opts cwd firstArg]
    by (intro schemas_prompted_none) auto
  then show ?thesis
    by (simp add: create_def Let_def schemas_prompted_bind prim_defs isEmptyDir_eq assms
        split: option.split sum.split)
qed

lemma schemas_prompted_create:
  "set (schemas_prompted (snd (create w appName opts cwd)))
     \<subseteq> set (case fst (getYargsOptions w (opt_templateRoot opts)
                    (case opt_templatePrefix opts of None \<Rightarrow> [] | Some p \<Rightarrow> p)
                    (case opt_promptForTemplate opts of None \<Rightarrow> False | Some b \<Rightarrow> b)
                    (case opt_defaultTemplate opts of None \<Rightarrow> ''default'' | Some t \<Rightarrow> t)
                    True (opt_extra opts)) of
          Inl e \<Rightarrow> []
        | Inr yargsOption \<Rightarrow> [yargsOption])"
  using schemas_prompted_create_aux
    [where w = w and opts = opts and cwd = cwd and appName = appName,
     OF schemas_prompted_create_configure]
  by auto

lemma getYargsOptions_license_prompts:
  assumes "fst (getYargsOptions w templateRoot templatePrefix promptForTemplate defaultTemplate
                  True extraOptions) = Inr yargsOption"
    and "k \<in> {''description'', ''author'', ''email'', ''license''}"
    and "k \<notin> fst ` set (case extraOptions of None \<Rightarrow> [] | Some e \<Rightarrow> e)"
  shows "prompt_of yargsOption k = Some Never"
  using assms
  by (auto simp: getYargsOptions_def getGitUser_eq prim_defs Let_def fst_bind prompt_of_def
      map_of_js_spread_other split: sum.splits)

lemma getYargsOptions_extra_entry:
  assumes "fst (getYargsOptions w templateRoot templatePrefix promptForTemplate defaultTemplate
                  skipLicense extraOptions) = Inr yargsOption"
    and "distinct (map fst (case extraOptions of None \<Rightarrow> [] | Some e \<Rightarrow> e))"
    and "map_of (case extraOptions of None \<Rightarrow> [] | Some e \<Rightarrow> e) k = Some d"
  shows "map_of yargsOption k = Some d"
  using assms
  by (auto simp: getYargsOptions_def getGitUser_eq prim_defs Let_def fst_bind
      map_of_js_spread_defined split: sum.splits)

section \<open>A failing hook ends the run\<close>

lemma hook_failure_last_no_hook:
  "(\<And>c. HookCall c \<notin> set (snd m)) \<Longrightarrow> hook_failure_last hook m"
  by (simp add: hook_failure_last_def)

lemma hook_failure_last_append:
  assumes "\<And>c. HookCall c \<notin> set evs" and "hook_failure_last hook m"
  shows "hook_failure_last hook (fst m, evs @ snd m)"
  unfolding hook_failure_last_def
proof (intro allI impI)
  fix ctx e
  assume "HookCall ctx \<in> set (snd (fst m, evs @ snd m)) \<and> hook ctx = Some e"
  with assms(1) have "HookCall ctx \<in> set (snd m)" and "hook ctx = Some e"
    by auto
  with assms(2) obtain pre where "fst m = Inl e" and "snd m = pre @ [HookCall ctx]"
    and "\<forall>c. HookCall c \<notin> set pre"
    unfolding hook_failure_last_def by blast
  with assms(1) have "snd (fst m, evs @ snd m) = (evs @ pre) @ [HookCall ctx]"
    and "\<forall>c. HookCall c \<notin> set (evs @ pre)"
    by auto
  with \<open>fst m = Inl e\<close>
  show "fst (fst m, evs @ snd m) = Inl e \<and>
        (\<exists>pre. snd (fst m, evs @ snd m) = pre @ [HookCall ctx] \<and> (\<forall>c. HookCall c \<notin> set pre))"
    by (metis fst_conv)
qed

lemma hook_failure_last_bind:
  assumes "\<And>c. HookCall c \<notin> set (snd m)" and "\<And>x. hook_failure_last hook (f x)"
  shows "hook_failure_last hook (bind m f)"
proof (cases m)
  case (Pair r evs)
  show ?thesis
  proof (cases r)
    case (Inl e)
    with Pair assms(1) show ?thesis
      by (simp add: hook_failure_last_no_hook)
  next
    case (Inr x)
    from assms(1) Pair have "\<And>c. HookCall c \<notin> set evs"
      by simp
    from hook_failure_last_append [OF this assms(2) [of x]] Pair Inr show ?thesis
      by simp
  qed
qed

lemma hook_failure_last_create_finish:
  assumes "opt_after opts = Some hook"
  shows "hook_failure_last hook
           (create_finish w opts name projectDir template templateDir year filtered contact)"
proof -
  define c0 where "c0 =
    \<lparr>ctx_name = name, ctx_projectDir = projectDir, ctx_template = template,
     ctx_templateDir = templateDir, ctx_year = year,
     ctx_answers = AList.update ''contact'' (JStr contact) (js_spread [] filtered)\<rparr>"
  have f: "create_finish w opts name projectDir template templateDir year filtered contact
             = bind (call_unit (HookCall c0) (hook c0)) (\<lambda>u. create_report w opts name c0)"
    by (simp add: create_finish_def Let_def c0_def assms)
  have r: "HookCall c \<notin> set (snd (create_report w opts name c0))" for c
    by (auto dest: create_report_events)
  show ?thesis
  proof (cases "hook c0")
    case None
    then have "snd (create_finish w opts name projectDir template templateDir year filtered contact)
                 = HookCall c0 # snd (create_report w opts name c0)"
      by (simp add: f call_unit_def)
    with r None show ?thesis
      by (auto simp: hook_failure_last_def)
  next
    case (Some e0)
    then have "create_finish w opts name projectDir template templateDir year filtered contact
                 = (Inl e0, [HookCall c0])"
      by (simp add: f call_unit_def)
    with Some show ?thesis
      by (simp add: hook_failure_last_def)
  qed
qed


lemma no_hook_installDeps:
  "HookCall c \<notin> set (snd (fst (installDeps w rootDir useYarn cwd)))"
  by (auto dest: installDeps_events)

lemma hook_failure_last_create_setup:
  assumes "opt_after opts = Some hook"
  shows "hook_failure_last hook
           (create_setup w opts cwd name projectDir args template templateDir year filtered
              contact)"
  unfolding create_setup_def
proof (intro hook_failure_last_bind)
  fix useYarn has_manifest and u1 u2 :: unit
  show "hook_failure_last hook
          (if \<not> opt_skipGit opts then
             case initGit w projectDir of
               (Inl err, evs) \<Rightarrow> if exitCode err = Some 127 then (Inr (), evs) else (Inl err, evs)
             | (Inr u, evs) \<Rightarrow>
                 bind (Inr (), evs @ [ConsoleLog ''\<newline>Initialized a git repository''])
                   (\<lambda>u. create_finish w opts name projectDir template templateDir year filtered
                          contact)
           else create_finish w opts name projectDir template templateDir year filtered contact)"
  proof (cases "opt_skipGit opts")
    case True
    then show ?thesis
      by (simp add: hook_failure_last_create_finish [OF assms])
  next
    case False
    show ?thesis
    proof (cases "execa_git_init w projectDir")
      case None
      have "hook_failure_last hook
              (bind (Inr (), [GitInit projectDir, ConsoleLog ''\<newline>Initialized a git repository''])
                 (\<lambda>u. create_finish w opts name projectDir template templateDir year filtered
                        contact))"
        by (rule hook_failure_last_bind) (simp_all add: hook_failure_last_create_finish [OF assms])
      with False None show ?thesis
        by (simp add: initGit_def call_unit_def)
    next
      case (Some err)
      with False show ?thesis
        by (simp add: initGit_def call_unit_def hook_failure_last_no_hook)
    qed
  qed
qed (simp_all add: snd_bind snd_catch prim_defs Let_def IsYarnAvailable_eq exists_eq
       no_hook_installDeps
       split: sum.split option.split)


lemma hook_failure_last_if:
  "hook_failure_last hook a \<Longrightarrow> hook_failure_last hook b \<Longrightarrow>
   hook_failure_last hook (if c then a else b)"
  by simp

lemma hook_failure_last_throw: "hook_failure_last hook (throw e)"
  by (simp add: throw_def hook_failure_last_no_hook)

lemma hook_failure_last_create_configure:
  assumes "opt_after opts = Some hook"
  shows "hook_failure_last hook (create_configure w opts cwd name projectDir)"
  unfolding create_configure_def Let_def
  by (intro hook_failure_last_bind hook_failure_last_if hook_failure_last_throw
        hook_failure_last_create_setup [OF assms])
     (simp_all add: getYargsOptions_events prim_defs exists_eq)

lemma hook_failure_last_create:
  assumes "opt_after opts = Some hook"
  shows "hook_failure_last hook (create w appName opts cwd)"
proof (cases "argv2 w")
  case None
  then show ?thesis
    by (simp add: create_def console_log_def hook_failure_last_no_hook)
next
  case (Some firstArg)
  have n: "HookCall c \<notin> set (snd (create_name w opts cwd firstArg))" for c
    using create_name_events [of w opts cwd firstArg] by auto
  have "hook_failure_last hook
          (bind (create_name w opts cwd firstArg) (\<lambda>name.
             bind (console_log (''\<newline>New project will be created in ''
                     @ chalk_green w (create_projectDir w opts cwd firstArg name)
                     @ ''.\<newline>'')) (\<lambda>u.
             bind (isEmptyDir w (create_projectDir w opts cwd firstArg name)) (\<lambda>empty.
               if \<not> empty
               then throw (Error (create_projectDir w opts cwd firstArg name @ '' is not empty.''))
               else create_configure w opts cwd name
                      (create_projectDir w opts cwd firstArg name)))))"
    by (intro hook_failure_last_bind hook_failure_last_if hook_failure_last_throw
          hook_failure_last_create_configure [OF assms] n)
       (simp_all add: prim_defs isEmptyDir_eq)
  with Some show ?thesis
    by (simp add: create_def Let_def)
qed

section \<open>What is copied and what is written\<close>

lemma bind_events:
  "\<forall>ev\<in>set (snd m). Q ev \<Longrightarrow> (\<And>x. fst m = Inr x \<Longrightarrow> \<forall>ev\<in>set (snd (f x)). Q ev) \<Longrightarrow>
   \<forall>ev\<in>set (snd (bind m f)). Q ev"
  by (cases "fst m") (auto simp: snd_bind)

lemma catch_events:
  "\<forall>ev\<in>set (snd m). Q ev \<Longrightarrow> (\<And>e. \<forall>ev\<in>set (snd (h e)). Q ev) \<Longrightarrow>
   \<forall>ev\<in>set (snd (catch m h)). Q ev"
  by (auto simp: snd_catch split: sum.splits)

lemma if_events:
  "(c \<Longrightarrow> \<forall>ev\<in>set (snd a). Q ev) \<Longrightarrow> (\<not> c \<Longrightarrow> \<forall>ev\<in>set (snd b). Q ev) \<Longrightarrow>
   \<forall>ev\<in>set (snd (if c then a else b)). Q ev"
  by simp

lemma create_setup_copy_write:
  assumes "ev \<in> set (snd (create_setup w opts cwd name projectDir args template templateDir year
                             filtered contact))"
  shows "(\<forall>pd td v. ev \<noteq> Copy pd td v)
       \<and> (\<forall>file txt. ev = WriteFile file txt \<longrightarrow>
            \<not> opt_skipLicense opts
            \<and> file = path_resolve w cwd [projectDir, ''LICENSE'']
            \<and> (\<exists>generated.
                 makeLicenseSync w (obj_get args ''license'')
                   \<lparr>lp_year = year, lp_project = name,
                    lp_description = obj_get args ''description'',
                    lp_organization =
                      getContact (obj_get args ''author'') (obj_get args ''email'')\<rparr>
                   = Inr generated
                 \<and> txt = licenseText generated))"
proof -
  define Q where "Q = (\<lambda>ev.
    (\<forall>pd td v. ev \<noteq> Copy pd td v)
    \<and> (\<forall>file txt. ev = WriteFile file txt \<longrightarrow>
         \<not> opt_skipLicense opts
         \<and> file = path_resolve w cwd [projectDir, ''LICENSE'']
         \<and> (\<exists>generated.
              makeLicenseSync w (obj_get args ''license'')
                \<lparr>lp_year = year, lp_project = name,
                 lp_description = obj_get args ''description'',
                 lp_organization =
                   getContact (obj_get args ''author'') (obj_get args ''email'')\<rparr>
                = Inr generated
              \<and> txt = licenseText generated)))"
  have finish: "\<forall>ev\<in>set (snd (create_finish w opts name projectDir template templateDir year
                                  filtered contact)). Q ev"
    by (auto simp: Q_def dest: create_finish_events)
  have install: "\<forall>ev\<in>set (snd (fst (installDeps w rootDir useYarn cwd))). Q ev"
    for rootDir useYarn
    by (auto simp: Q_def dest: installDeps_events)
  have git: "\<forall>ev\<in>set (snd
      (if \<not> opt_skipGit opts then
         case initGit w projectDir of
           (Inl err, evs) \<Rightarrow> if exitCode err = Some 127 then (Inr (), evs) else (Inl err, evs)
         | (Inr u, evs) \<Rightarrow>
             bind (Inr (), evs @ [ConsoleLog ''\<newline>Initialized a git repository''])
               (\<lambda>u. create_finish w opts name projectDir template templateDir year filtered
                      contact)
       else create_finish w opts name projectDir template templateDir year filtered contact)).
      Q ev"
    using finish
    by (auto simp: initGit_def call_unit_def Q_def split: option.splits)
  have "\<forall>ev\<in>set (snd (create_setup w opts cwd name projectDir args template templateDir
                          year filtered contact)). Q ev"
    unfolding create_setup_def Let_def
    by (intro bind_events catch_events if_events install git)
       (auto simp: prim_defs IsYarnAvailable_eq exists_eq Q_def split: option.splits)
  with assms show ?thesis
    unfolding Q_def by blast
qed


lemma create_configure_copy_write:
  assumes "ev \<in> set (snd (create_configure w opts cwd name projectDir))"
  shows "\<exists>yargsOption answers.
           ((\<exists>pd td v. ev = Copy pd td v) \<or> (\<exists>file txt. ev = WriteFile file txt) \<longrightarrow>
              fst (getYargsOptions w (opt_templateRoot opts)
                     (case opt_templatePrefix opts of None \<Rightarrow> [] | Some p \<Rightarrow> p)
                     (case opt_promptForTemplate opts of None \<Rightarrow> False | Some b \<Rightarrow> b)
                     (case opt_defaultTemplate opts of None \<Rightarrow> ''default'' | Some t \<Rightarrow> t)
                     True (opt_extra opts)) = Inr yargsOption
              \<and> yargsInteractive w yargsOption = Inr answers)
         \<and> (\<forall>pd td v. ev = Copy pd td v \<longrightarrow>
               pd = projectDir
               \<and> td = path_resolve w cwd
                        [opt_templateRoot opts,
                         (case opt_templatePrefix opts of None \<Rightarrow> [] | Some p \<Rightarrow> p)
                         @ js_str (obj_get answers ''template'')]
               \<and> v = view (filteredArgs answers) name (now_year w)
                       (getContact (obj_get answers ''author'') (obj_get answers ''email'')))
         \<and> (\<forall>file txt. ev = WriteFile file txt \<longrightarrow>
               \<not> opt_skipLicense opts
               \<and> file = path_resolve w cwd [projectDir, ''LICENSE'']
               \<and> (\<exists>generated.
                    makeLicenseSync w (obj_get answers ''license'')
                      \<lparr>lp_year = now_year w, lp_project = name,
                       lp_description = obj_get answers ''description'',
                       lp_organization =
                         getContact (obj_get answers ''author'') (obj_get answers ''email'')\<rparr>
                      = Inr generated
                    \<and> txt = licenseText generated))"
proof -
  define Q where "Q = (\<lambda>ev. \<exists>yargsOption answers.
           ((\<exists>pd td v. ev = Copy pd td v) \<or> (\<exists>file txt. ev = WriteFile file txt) \<longrightarrow>
              fst (getYargsOptions w (opt_templateRoot opts)
                     (case opt_templatePrefix opts of None \<Rightarrow> [] | Some p \<Rightarrow> p)
                     (case opt_promptForTemplate opts of None \<Rightarrow> False | Some b \<Rightarrow> b)
                     (case opt_defaultTemplate opts of None \<Rightarrow> ''default'' | Some t \<Rightarrow> t)
                     True (opt_extra opts)) = Inr yargsOption
              \<and> yargsInteractive w yargsOption = Inr answers)
         \<and> (\<forall>pd td v. ev = Copy pd td v \<longrightarrow>
               pd = projectDir
               \<and> td = path_resolve w cwd
                        [opt_templateRoot opts,
                         (case opt_templatePrefix opts of None \<Rightarrow> [] | Some p \<Rightarrow> p)
                         @ js_str (obj_get answers ''template'')]
               \<and> v = view (filteredArgs answers) name (now_year w)
                       (getContact (obj_get answers ''author'') (obj_get answers ''email'')))
         \<and> (\<forall>file txt. ev = WriteFile file txt \<longrightarrow>
               \<not> opt_skipLicense opts
               \<and> file = path_resolve w cwd [projectDir, ''LICENSE'']
               \<and> (\<exists>generated.
                    makeLicenseSync w (obj_get answers ''license'')
                      \<lparr>lp_year = now_year w, lp_project = name,
                       lp_description = obj_get answers ''description'',
                       lp_organization =
                         getContact (obj_get answers ''author'') (obj_get answers ''email'')\<rparr>
                      = Inr generated
                    \<and> txt = licenseText generated)))"
  have stage: "\<forall>ev\<in>set (snd (create_setup w opts cwd name projectDir answers
                  (obj_get answers ''template'') templateDir (now_year w) filtered contact)). Q ev"
    if "fst (getYargsOptions w (opt_templateRoot opts)
                     (case opt_templatePrefix opts of None \<Rightarrow> [] | Some p \<Rightarrow> p)
                     (case opt_promptForTemplate opts of None \<Rightarrow> False | Some b \<Rightarrow> b)
                     (case opt_defaultTemplate opts of None \<Rightarrow> ''default'' | Some t \<Rightarrow> t)
                     True (opt_extra opts)) = Inr yargsOption"
      and "yargsInteractive w yargsOption = Inr answers"
    for yargsOption answers templateDir filtered contact
  proof
    fix ev
    assume "ev \<in> set (snd (create_setup w opts cwd name projectDir answers
                  (obj_get answers ''template'') templateDir (now_year w) filtered contact))"
    from create_setup_copy_write [OF this] that show "Q ev"
      unfolding Q_def by blast
  qed
  have "\<forall>ev\<in>set (snd (create_configure w opts cwd name projectDir)). Q ev"
    unfolding create_configure_def Let_def
    by (intro bind_events if_events stage)
       (auto simp: prim_defs getYargsOptions_events exists_eq Q_def split: option.splits)
  with assms have "Q ev"
    by blast
  then show ?thesis
    unfolding Q_def .
qed


lemma create_copy_and_write:
  assumes "ev \<in> set (snd (create w appName opts cwd))"
    and "(\<exists>pd td v. ev = Copy pd td v) \<or> (\<exists>file txt. ev = WriteFile file txt)"
  shows "\<exists>firstArg name yargsOption answers.
           argv2 w = Some firstArg
           \<and> fst (create_name w opts cwd firstArg) = Inr name
           \<and> fst (getYargsOptions w (opt_templateRoot opts)
                     (case opt_templatePrefix opts of None \<Rightarrow> [] | Some p \<Rightarrow> p)
                     (case opt_promptForTemplate opts of None \<Rightarrow> False | Some b \<Rightarrow> b)
                     (case opt_defaultTemplate opts of None \<Rightarrow> ''default'' | Some t \<Rightarrow> t)
                     True (opt_extra opts)) = Inr yargsOption
           \<and> yargsInteractive w yargsOption = Inr answers
           \<and> (\<forall>pd td v. ev = Copy pd td v \<longrightarrow>
                 pd = create_projectDir w opts cwd firstArg name
                 \<and> td = path_resolve w cwd
                          [opt_templateRoot opts,
                           (case opt_templatePrefix opts of None \<Rightarrow> [] | Some p \<Rightarrow> p)
                           @ js_str (obj_get answers ''template'')]
                 \<and> v = view (filteredArgs answers) name (now_year w)
                         (getContact (obj_get answers ''author'') (obj_get answers ''email'')))
           \<and> (\<forall>file txt. ev = WriteFile file txt \<longrightarrow>
                 \<not> opt_skipLicense opts
                 \<and> file = path_resolve w cwd
                            [create_projectDir w opts cwd firstArg name, ''LICENSE'']
                 \<and> (\<exists>generated.
                      makeLicenseSync w (obj_get answers ''license'')
                        \<lparr>lp_year = now_year w, lp_project = name,
                         lp_description = obj_get answers ''description'',
                         lp_organization =
                           getContact (obj_get answers ''author'') (obj_get answers ''email'')\<rparr>
                        = Inr generated
                      \<and> txt = licenseText generated))"
proof (cases "argv2 w")
  case None
  with assms show ?thesis
    by (auto simp: create_def console_log_def)
next
  case (Some firstArg)
  define Q where "Q = (\<lambda>ev.
    (\<exists>pd td v. ev = Copy pd td v) \<or> (\<exists>file txt. ev = WriteFile file txt) \<longrightarrow>
      (\<exists>name yargsOption answers.
           argv2 w = Some firstArg
           \<and> fst (create_name w opts cwd firstArg) = Inr name
           \<and> fst (getYargsOptions w (opt_templateRoot opts)
                     (case opt_templatePrefix opts of None \<Rightarrow> [] | Some p \<Rightarrow> p)
                     (case opt_promptForTemplate opts of None \<Rightarrow> False | Some b \<Rightarrow> b)
                     (case opt_defaultTemplate opts of None \<Rightarrow> ''default'' | Some t \<Rightarrow> t)
                     True (opt_extra opts)) = Inr yargsOption
           \<and> yargsInteractive w yargsOption = Inr answers
           \<and> (\<forall>pd td v. ev = Copy pd td v \<longrightarrow>
                 pd = create_projectDir w opts cwd firstArg name
                 \<and> td = path_resolve w cwd
                          [opt_templateRoot opts,
                           (case opt_templatePrefix opts of None \<Rightarrow> [] | Some p \<Rightarrow> p)
                           @ js_str (obj_get answers ''template'')]
                 \<and> v = view (filteredArgs answers) name (now_year w)
                         (getContact (obj_get answers ''author'') (obj_get answers ''email'')))
           \<and> (\<forall>file txt. ev = WriteFile file txt \<longrightarrow>
                 \<not> opt_skipLicense opts
                 \<and> file = path_resolve w cwd
                            [create_projectDir w opts cwd firstArg name, ''LICENSE'']
                 \<and> (\<exists>generated.
                      makeLicenseSync w (obj_get answers ''license'')
                        \<lparr>lp_year = now_year w, lp_project = name,
                         lp_description = obj_get answers ''description'',
                         lp_organization =
                           getContact (obj_get answers ''author'') (obj_get answers ''email'')\<rparr>
                        = Inr generated
                      \<and> txt = licenseText generated))))"
  have conf: "\<forall>ev\<in>set (snd (create_configure w opts cwd name
                                 (create_projectDir w opts cwd firstArg name))). Q ev"
    if "fst (create_name w opts cwd firstArg) = Inr name" for name
  proof
    fix ev
    assume "ev \<in> set (snd (create_configure w opts cwd name
                             (create_projectDir w opts cwd firstArg name)))"
    from create_configure_copy_write [OF this] obtain yargsOption answers where
      "(\<exists>pd td v. ev = Copy pd td v) \<or> (\<exists>file txt. ev = WriteFile file txt) \<longrightarrow>
              fst (getYargsOptions w (opt_templateRoot opts)
                     (case opt_templatePrefix opts of None \<Rightarrow> [] | Some p \<Rightarrow> p)
                     (case opt_promptForTemplate opts of None \<Rightarrow> False | Some b \<Rightarrow> b)
                     (case opt_defaultTemplate opts of None \<Rightarrow> ''default'' | Some t \<Rightarrow> t)
                     True (opt_extra opts)) = Inr yargsOption
              \<and> yargsInteractive w yargsOption = Inr answers"
      and "\<forall>pd td v. ev = Copy pd td v \<longrightarrow>
               pd = create_projectDir w opts cwd firstArg name
               \<and> td = path_resolve w cwd
                        [opt_templateRoot opts,
                         (case opt_templatePrefix opts of None \<Rightarrow> [] | Some p \<Rightarrow> p)
                         @ js_str (obj_get answers ''template'')]
               \<and> v = view (filteredArgs answers) name (now_year w)
                       (getContact (obj_get answers ''author'') (obj_get answers ''email''))"
      and "\<forall>file txt. ev = WriteFile file txt \<longrightarrow>
               \<not> opt_skipLicense opts
               \<and> file = path_resolve w cwd [create_projectDir w opts cwd firstArg name, ''LICENSE'']
               \<and> (\<exists>generated.
                    makeLicenseSync w (obj_get answers ''license'')
                      \<lparr>lp_year = now_year w, lp_project = name,
                       lp_description = obj_get answers ''description'',
                       lp_organization =
                         getContact (obj_get answers ''author'') (obj_get answers ''email'')\<rparr>
                      = Inr generated
                    \<and> txt = licenseText generated)"
      by blast
    with that Some show "Q ev"
      unfolding Q_def by (intro impI exI [of _ name] exI [of _ yargsOption] exI [of _ answers]) simp
  qed
  have n: "\<forall>ev\<in>set (snd (create_name w opts cwd firstArg)). Q ev"
    using create_name_events [of w opts cwd firstArg] by (auto simp: Q_def)
  have "\<forall>ev\<in>set (snd
          (bind (create_name w opts cwd firstArg) (\<lambda>name.
             bind (console_log (''\<newline>New project will be created in ''
                     @ chalk_green w (create_projectDir w opts cwd firstArg name)
                     @ ''.\<newline>'')) (\<lambda>u.
             bind (isEmptyDir w (create_projectDir w opts cwd firstArg name)) (\<lambda>empty.
               if \<not> empty
               then throw (Error (create_projectDir w opts cwd firstArg name @ '' is not empty.''))
               else create_configure w opts cwd name
                      (create_projectDir w opts cwd firstArg name)))))). Q ev"
    by (intro bind_events if_events conf n)
       (auto simp: prim_defs isEmptyDir_eq Q_def)
  with Some have "\<forall>ev\<in>set (snd (create w appName opts cwd)). Q ev"
    by (simp add: create_def Let_def)
  with assms(1) have "Q ev"
    by blast
  with assms(2) Some show ?thesis
    unfolding Q_def by (elim impE exE) (assumption, intro exI, assumption)
qed

section \<open>A failed git init ends the run\<close>

lemma git_failure_last_no_git:
  "(\<And>r. GitInit r \<notin> set (snd m)) \<Longrightarrow> git_failure_last w m"
  by (simp add: git_failure_last_def)

lemma git_failure_last_append:
  assumes "\<And>r. GitInit r \<notin> set evs" and "git_failure_last w m"
  shows "git_failure_last w (fst m, evs @ snd m)"
  unfolding git_failure_last_def
proof (intro allI impI)
  fix root err
  assume "GitInit root \<in> set (snd (fst m, evs @ snd m)) \<and> execa_git_init w root = Some err"
  with assms(1) have "GitInit root \<in> set (snd m)" and "execa_git_init w root = Some err"
    by auto
  with assms(2) obtain pre
    where f: "fst m = (if exitCode err = Some 127 then Inr () else Inl err)"
      and "snd m = pre @ [GitInit root]" and "\<forall>r. GitInit r \<notin> set pre"
    unfolding git_failure_last_def by blast
  with assms(1) have "snd (fst m, evs @ snd m) = (evs @ pre) @ [GitInit root]"
    and "\<forall>r. GitInit r \<notin> set (evs @ pre)"
    by auto
  with f
  show "fst (fst m, evs @ snd m) = (if exitCode err = Some 127 then Inr () else Inl err) \<and>
        (\<exists>pre. snd (fst m, evs @ snd m) = pre @ [GitInit root] \<and> (\<forall>r. GitInit r \<notin> set pre))"
    by (metis fst_conv)
qed

lemma git_failure_last_bind:
  assumes "\<And>r. GitInit r \<notin> set (snd m)" and "\<And>x. git_failure_last w (f x)"
  shows "git_failure_last w (bind m f)"
proof (cases m)
  case (Pair r evs)
  show ?thesis
  proof (cases r)
    case (Inl e)
    with Pair assms(1) show ?thesis
      by (simp add: git_failure_last_no_git)
  next
    case (Inr x)
    from assms(1) Pair have "\<And>r. GitInit r \<notin> set evs"
      by simp
    from git_failure_last_append [OF this assms(2) [of x]] Pair Inr show ?thesis
      by simp
  qed
qed

lemma git_failure_last_if:
  "git_failure_last w a \<Longrightarrow> git_failure_last w b \<Longrightarrow> git_failure_last w (if c then a else b)"
  by simp

lemma git_failure_last_throw: "git_failure_last w (throw e)"
  by (simp add: throw_def git_failure_last_no_git)

lemma no_git_create_finish:
  "GitInit r \<notin> set (snd (create_finish w opts name projectDir template templateDir year filtered
                             contact))"
  by (auto dest: create_finish_events)

lemma no_git_installDeps:
  "GitInit r \<notin> set (snd (fst (installDeps w rootDir useYarn cwd)))"
  by (auto dest: installDeps_events)

lemma git_failure_last_create_setup:
  "git_failure_last w
     (create_setup w opts cwd name projectDir args template templateDir year filtered contact)"
  unfolding create_setup_def
proof (intro git_failure_last_bind)
  fix useYarn has_manifest and u1 u2 :: unit
  show "git_failure_last w
          (if \<not> opt_skipGit opts then
             case initGit w projectDir of
               (Inl err, evs) \<Rightarrow> if exitCode err = Some 127 then (Inr (), evs) else (Inl err, evs)
             | (Inr u, evs) \<Rightarrow>
                 bind (Inr (), evs @ [ConsoleLog ''\<newline>Initialized a git repository''])
                   (\<lambda>u. create_finish w opts name projectDir template templateDir year filtered
                          contact)
           else create_finish w opts name projectDir template templateDir year filtered contact)"
  proof (cases "opt_skipGit opts")
    case True
    then show ?thesis
      by (simp add: git_failure_last_no_git no_git_create_finish)
  next
    case False
    show ?thesis
    proof (cases "execa_git_init w projectDir")
      case None
      then have "git_failure_last w
              (fst (create_finish w opts name projectDir template templateDir year filtered
                      contact),
               [GitInit projectDir, ConsoleLog ''\<newline>Initialized a git repository'']
               @ snd (create_finish w opts name projectDir template templateDir year filtered
                        contact))"
        by (auto simp: git_failure_last_def no_git_create_finish)
      with False None show ?thesis
        by (simp add: initGit_def call_unit_def)
    next
      case (Some err)
      with False show ?thesis
        by (simp add: initGit_def call_unit_def git_failure_last_def)
    qed
  qed
qed (simp_all add: snd_bind snd_catch prim_defs Let_def IsYarnAvailable_eq exists_eq
       no_git_installDeps split: sum.split option.split)

lemma git_failure_last_create_configure:
  "git_failure_last w (create_configure w opts cwd name projectDir)"
  unfolding create_configure_def Let_def
  by (intro git_failure_last_bind git_failure_last_if git_failure_last_throw
        git_failure_last_create_setup)
     (simp_all add: getYargsOptions_events prim_defs exists_eq)

lemma git_failure_last_create: "git_failure_last w (create w appName opts cwd)"
proof (cases "argv2 w")
  case None
  then show ?thesis
    by (simp add: create_def console_log_def git_failure_last_no_git)
next
  case (Some firstArg)
  have n: "GitInit r \<notin> set (snd (create_name w opts cwd firstArg))" for r
    using create_name_events [of w opts cwd firstArg] by auto
  have "git_failure_last w
          (bind (create_name w opts cwd firstArg) (\<lambda>name.
             bind (console_log (''\<newline>New project will be created in ''
                     @ chalk_green w (create_projectDir w opts cwd firstArg name)
                     @ ''.\<newline>'')) (\<lambda>u.
             bind (isEmptyDir w (create_projectDir w opts cwd firstArg name)) (\<lambda>empty.
               if \<not> empty
               then throw (Error (create_projectDir w opts cwd firstArg name @ '' is not empty.''))
               else create_configure w opts cwd name
                      (create_projectDir w opts cwd firstArg name)))))"
    by (intro git_failure_last_bind git_failure_last_if git_failure_last_throw
          git_failure_last_create_configure n)
       (simp_all add: prim_defs isEmptyDir_eq)
  with Some show ?thesis
    by (simp add: create_def Let_def)
qed

section \<open>The claims\<close>

text \<open>
  Claim C1, as the code has it: a \<^verbatim>\<open>git init\<close> that fails is the last event of the run
  (and its only \<^verbatim>\<open>git init\<close>); \<^verbatim>\<open>create\<close> resolves when the exit code is 127 and rejects
  with the failure otherwise. So \<^verbatim>\<open>create\<close> does not raise on exit code 127 and raises
  any other failure, as the claim says; but the \<^verbatim>\<open>return\<close> of line 249 leaves
  \<^verbatim>\<open>create\<close>, so that after it the hook is not called and neither the success message
  nor the caveat is printed, where the claim has all three still happen.
\<close>

theorem create_git_failure:
  assumes "GitInit root \<in> set (snd (create w appName opts cwd))"
    and "execa_git_init w root = Some err"
  shows "fst (create w appName opts cwd) = (if exitCode err = Some 127 then Inr () else Inl err)
         \<and> (\<exists>pre. snd (create w appName opts cwd) = pre @ [GitInit root]
                \<and> (\<forall>r. GitInit r \<notin> set pre))"
  using git_failure_last_create [of w appName opts cwd] assms
  unfolding git_failure_last_def by blast

text \<open>
  C1 on the concrete world with a hook and a caveat, when \<^verbatim>\<open>git init\<close> fails with exit
  code 127: \<^verbatim>\<open>create\<close> resolves, the trace ends at \<^verbatim>\<open>git init\<close>, and the announcement and
  the copy message are all that was printed. With git at hand the same run calls the
  hook and prints the success message and the caveat; with exit code 1 it rejects.
\<close>

theorem create_git_failure_witness:
  "fst (create (ex_env\<lparr>execa_git_init := (\<lambda>root. Some (ExecaError (Some 127)))\<rparr>) ''app''
          (ex_opts\<lparr>opt_after := Some (\<lambda>c. None),
             opt_caveat := Some (CaveatString ''cd demo'')\<rparr>) ''/home/ada'') = Inr ()
   \<and> (\<exists>pre. snd (create (ex_env\<lparr>execa_git_init := (\<lambda>root. Some (ExecaError (Some 127)))\<rparr>)
                 ''app''
                 (ex_opts\<lparr>opt_after := Some (\<lambda>c. None),
                    opt_caveat := Some (CaveatString ''cd demo'')\<rparr>) ''/home/ada'')
               = pre @ [GitInit ''/home/ada/demo''])
   \<and> [ev \<leftarrow> snd (create (ex_env\<lparr>execa_git_init := (\<lambda>root. Some (ExecaError (Some 127)))\<rparr>)
          ''app''
          (ex_opts\<lparr>opt_after := Some (\<lambda>c. None),
             opt_caveat := Some (CaveatString ''cd demo'')\<rparr>) ''/home/ada'').
        case ev of ConsoleLog s \<Rightarrow> True | HookCall c \<Rightarrow> True | CaveatCall c \<Rightarrow> True | _ \<Rightarrow> False]
       = [ConsoleLog ''\<newline>New project will be created in /home/ada/demo.\<newline>'',
          ConsoleLog ''\<newline>Creating a new project in /home/ada/demo.\<newline>'']
   \<and> [ev \<leftarrow> snd (create ex_env ''app''
          (ex_opts\<lparr>opt_after := Some (\<lambda>c. None),
             opt_caveat := Some (CaveatString ''cd demo'')\<rparr>) ''/home/ada'').
        case ev of ConsoleLog s \<Rightarrow> True | HookCall c \<Rightarrow> True | CaveatCall c \<Rightarrow> True | _ \<Rightarrow> False]
       = [ConsoleLog ''\<newline>New project will be created in /home/ada/demo.\<newline>'',
          ConsoleLog ''\<newline>Creating a new project in /home/ada/demo.\<newline>'',
          ConsoleLog ''\<newline>Initialized a git repository'',
          HookCall
            \<lparr>ctx_name = ''demo'', ctx_projectDir = ''/home/ada/demo'',
             ctx_template = JStr ''default'', ctx_templateDir = ''/tpl/default'',
             ctx_year = 2026,
             ctx_answers =
               [(''description'', JStr ''a demo''), (''author'', JStr ''Ada''),
                (''email'', JStr ''ada@example.org''), (''license'', JStr ''MIT''),
                (''contact'', JStr ''Ada <ada@example.org>'')]\<rparr>,
          ConsoleLog ''\<newline>Success! Created demo.'',
          ConsoleLog ''cd demo'']
   \<and> fst (create (ex_env\<lparr>execa_git_init := (\<lambda>root. Some (ExecaError (Some 1)))\<rparr>) ''app''
          (ex_opts\<lparr>opt_after := Some (\<lambda>c. None),
             opt_caveat := Some (CaveatString ''cd demo'')\<rparr>) ''/home/ada'')
       = Inl (ExecaError (Some 1))"
proof -
  let ?w = "ex_env\<lparr>execa_git_init := (\<lambda>root. Some (ExecaError (Some 127)))\<rparr>"
  let ?w1 = "ex_env\<lparr>execa_git_init := (\<lambda>root. Some (ExecaError (Some 1)))\<rparr>"
  let ?o = "ex_opts\<lparr>opt_after := Some (\<lambda>c. None), opt_caveat := Some (CaveatString ''cd demo'')\<rparr>"
  have m: "GitInit ''/home/ada/demo'' \<in> set (snd (create ?w ''app'' ?o ''/home/ada''))"
    "GitInit ''/home/ada/demo'' \<in> set (snd (create ?w1 ''app'' ?o ''/home/ada''))"
    by code_simp+
  have g: "execa_git_init ?w ''/home/ada/demo'' = Some (ExecaError (Some 127))"
    "execa_git_init ?w1 ''/home/ada/demo'' = Some (ExecaError (Some 1))"
    by simp_all
  from create_git_failure [OF m(1) g(1)]
  have 1: "fst (create ?w ''app'' ?o ''/home/ada'') = Inr ()"
    "\<exists>pre. snd (create ?w ''app'' ?o ''/home/ada'') = pre @ [GitInit ''/home/ada/demo'']"
    by auto
  from create_git_failure [OF m(2) g(2)]
  have 2: "fst (create ?w1 ''app'' ?o ''/home/ada'') = Inl (ExecaError (Some 1))"
    by simp
  have 3: "[ev \<leftarrow> snd (create ?w ''app'' ?o ''/home/ada'').
        case ev of ConsoleLog s \<Rightarrow> True | HookCall c \<Rightarrow> True | CaveatCall c \<Rightarrow> True | _ \<Rightarrow> False]
       = [ConsoleLog ''\<newline>New project will be created in /home/ada/demo.\<newline>'',
          ConsoleLog ''\<newline>Creating a new project in /home/ada/demo.\<newline>'']"
    by code_simp
  have 4: "[ev \<leftarrow> snd (create ex_env ''app'' ?o ''/home/ada'').
        case ev of ConsoleLog s \<Rightarrow> True | HookCall c \<Rightarrow> True | CaveatCall c \<Rightarrow> True | _ \<Rightarrow> False]
       = [ConsoleLog ''\<newline>New project will be created in /home/ada/demo.\<newline>'',
          ConsoleLog ''\<newline>Creating a new project in /home/ada/demo.\<newline>'',
          ConsoleLog ''\<newline>Initialized a git repository'',
          HookCall
            \<lparr>ctx_name = ''demo'', ctx_projectDir = ''/home/ada/demo'',
             ctx_template = JStr ''default'', ctx_templateDir = ''/tpl/default'',
             ctx_year = 2026,
             ctx_answers =
               [(''description'', JStr ''a demo''), (''author'', JStr ''Ada''),
                (''email'', JStr ''ada@example.org''), (''license'', JStr ''MIT''),
                (''contact'', JStr ''Ada <ada@example.org>'')]\<rparr>,
          ConsoleLog ''\<newline>Success! Created demo.'',
          ConsoleLog ''cd demo'']"
    by code_simp
  from 1 2 3 4 show ?thesis
    by blast
qed

text \<open>
  Claim C2, as amended: every schema \<^verbatim>\<open>create\<close> hands to the prompt engine has the
  prompt policy \<^verbatim>\<open>never\<close> for each of \<^verbatim>\<open>description\<close>, \<^verbatim>\<open>author\<close>, \<^verbatim>\<open>email\<close> and \<^verbatim>\<open>license\<close>
  that \<^verbatim>\<open>options.extra\<close> does not define, whatever \<^verbatim>\<open>skipLicense\<close> and the other options
  are: \<^verbatim>\<open>create\<close> builds the schema with \<^verbatim>\<open>skipLicense = true\<close>. For every key that
  \<^verbatim>\<open>options.extra\<close> (an object: each key once) does define, these four included, the
  entry of the schema is the entry of \<^verbatim>\<open>options.extra\<close>, prompt policy included.
\<close>

theorem create_never_prompts_license_options:
  assumes "yargsOption \<in> set (schemas_prompted (snd (create w appName opts cwd)))"
  shows "(k \<in> {''description'', ''author'', ''email'', ''license''}
          \<and> k \<notin> fst ` set (case opt_extra opts of None \<Rightarrow> [] | Some e \<Rightarrow> e)
          \<longrightarrow> prompt_of yargsOption k = Some Never)
       \<and> (distinct (map fst (case opt_extra opts of None \<Rightarrow> [] | Some e \<Rightarrow> e))
          \<and> map_of (case opt_extra opts of None \<Rightarrow> [] | Some e \<Rightarrow> e) k = Some d
          \<longrightarrow> map_of yargsOption k = Some d \<and> prompt_of yargsOption k = d_prompt d)"
proof -
  from assms schemas_prompted_create [of w appName opts cwd]
  have s: "fst (getYargsOptions w (opt_templateRoot opts)
                    (case opt_templatePrefix opts of None \<Rightarrow> [] | Some p \<Rightarrow> p)
                    (case opt_promptForTemplate opts of None \<Rightarrow> False | Some b \<Rightarrow> b)
                    (case opt_defaultTemplate opts of None \<Rightarrow> ''default'' | Some t \<Rightarrow> t)
                    True (opt_extra opts)) = Inr yargsOption"
    by (auto split: sum.splits)
  show ?thesis
  proof (rule conjI; rule impI)
    assume "k \<in> {''description'', ''author'', ''email'', ''license''}
          \<and> k \<notin> fst ` set (case opt_extra opts of None \<Rightarrow> [] | Some e \<Rightarrow> e)"
    with getYargsOptions_license_prompts [OF s] show "prompt_of yargsOption k = Some Never"
      by blast
  next
    assume "distinct (map fst (case opt_extra opts of None \<Rightarrow> [] | Some e \<Rightarrow> e))
          \<and> map_of (case opt_extra opts of None \<Rightarrow> [] | Some e \<Rightarrow> e) k = Some d"
    with getYargsOptions_extra_entry [OF s] have "map_of yargsOption k = Some d"
      by blast
    then show "map_of yargsOption k = Some d \<and> prompt_of yargsOption k = d_prompt d"
      by (simp add: prompt_of_def)
  qed
qed

text \<open>
  C2 as stated fails: \<^verbatim>\<open>options.extra\<close> is spread last into the schema, so a caller's own
  \<^verbatim>\<open>author\<close> entry with the policy \<^verbatim>\<open>always\<close> is what the prompt engine gets.
\<close>

theorem create_never_prompts_license_options_counterexample:
  "map (\<lambda>yargsOption. prompt_of yargsOption ''author'')
     (schemas_prompted (snd (create ex_env ''app''
        (ex_opts\<lparr>opt_extra := Some [(''author'',
            \<lparr>d_type = Some ''input'', d_describe = Some ''author name'',
             d_default = JUndefined, d_prompt = Some Always, d_choices = None\<rparr>)]\<rparr>)
        ''/home/ada'')))
   = [Some Always]"
  by code_simp

text \<open>
  C2 on the concrete world, license generation enabled, and \<^verbatim>\<open>options.extra\<close> holding an
  \<^verbatim>\<open>author\<close> entry with the policy \<^verbatim>\<open>if-no-arg\<close>: that entry is in the schema, and the
  other three options are never prompted.
\<close>

theorem create_never_prompts_license_options_witness:
  "opt_skipLicense ex_opts = False
   \<and> map (\<lambda>yargsOption. map (prompt_of yargsOption)
            [''description'', ''author'', ''email'', ''license''])
       (schemas_prompted (snd (create ex_env ''app''
          (ex_opts\<lparr>opt_extra := Some [(''author'',
              \<lparr>d_type = Some ''input'', d_describe = Some ''who'',
               d_default = JUndefined, d_prompt = Some IfNoArg, d_choices = None\<rparr>)]\<rparr>)
          ''/home/ada'')))
     = [[Some Never, Some IfNoArg, Some Never, Some Never]]
   \<and> map (\<lambda>yargsOption. map_of yargsOption ''author'')
       (schemas_prompted (snd (create ex_env ''app''
          (ex_opts\<lparr>opt_extra := Some [(''author'',
              \<lparr>d_type = Some ''input'', d_describe = Some ''who'',
               d_default = JUndefined, d_prompt = Some IfNoArg, d_choices = None\<rparr>)]\<rparr>)
          ''/home/ada'')))
     = [Some \<lparr>d_type = Some ''input'', d_describe = Some ''who'',
               d_default = JUndefined, d_prompt = Some IfNoArg, d_choices = None\<rparr>]"
proof -
  let ?d = "\<lparr>d_type = Some ''input'', d_describe = Some ''who'',
               d_default = JUndefined, d_prompt = Some IfNoArg, d_choices = None\<rparr>"
  let ?o = "ex_opts\<lparr>opt_extra := Some [(''author'', ?d)]\<rparr>"
  have "length (schemas_prompted (snd (create ex_env ''app'' ?o ''/home/ada''))) = 1"
    by code_simp
  then obtain s where s: "schemas_prompted (snd (create ex_env ''app'' ?o ''/home/ada'')) = [s]"
    by (auto simp: length_Suc_conv)
  then have m: "s \<in> set (schemas_prompted (snd (create ex_env ''app'' ?o ''/home/ada'')))"
    by simp
  have x: "(case opt_extra ?o of None \<Rightarrow> [] | Some e \<Rightarrow> e) = [(''author'', ?d)]"
    by simp
  from create_never_prompts_license_options [OF m, of "''description''"] x
  have 1: "prompt_of s ''description'' = Some Never"
    by simp
  from create_never_prompts_license_options [OF m, of "''email''"] x
  have 2: "prompt_of s ''email'' = Some Never"
    by simp
  from create_never_prompts_license_options [OF m, of "''license''"] x
  have 3: "prompt_of s ''license'' = Some Never"
    by simp
  from create_never_prompts_license_options [OF m, of "''author''" ?d] x
  have 4: "map_of s ''author'' = Some ?d" "prompt_of s ''author'' = Some IfNoArg"
    by simp_all
  from s 1 2 3 4 show ?thesis
    by (simp add: ex_opts_def)
qed

text \<open>
  Claim C3, as amended: take the name \<^verbatim>\<open>create\<close> derived and the answers the prompt
  engine gave for the schema \<^verbatim>\<open>create\<close> built (an object: each key once). The view that
  \<^verbatim>\<open>create\<close> passes to \<^verbatim>\<open>copy\<close> is the projection of these answers: it holds \<^verbatim>\<open>name\<close>,
  \<^verbatim>\<open>year\<close> and \<^verbatim>\<open>contact\<close> with that name, the current year and the contact made of the
  answers \<^verbatim>\<open>author\<close> and \<^verbatim>\<open>email\<close>, in place of any answer under these three keys; it has
  no entry for the empty key, for a key that begins with \<^verbatim>\<open>$\<close> or \<^verbatim>\<open>_\<close>, for
  \<^verbatim>\<open>interactive\<close> and for \<^verbatim>\<open>template\<close>; every other key reads in the view as it reads in
  the answers. The destination of the copy is the project directory \<^verbatim>\<open>create\<close> derived.
\<close>

theorem view_projection:
  assumes "argv2 w = Some firstArg"
    and "fst (create_name w opts cwd firstArg) = Inr project"
    and "fst (getYargsOptions w (opt_templateRoot opts)
                   (case opt_templatePrefix opts of None \<Rightarrow> [] | Some p \<Rightarrow> p)
                   (case opt_promptForTemplate opts of None \<Rightarrow> False | Some b \<Rightarrow> b)
                   (case opt_defaultTemplate opts of None \<Rightarrow> ''default'' | Some t \<Rightarrow> t)
                   True (opt_extra opts)) = Inr yargsOption"
    and "yargsInteractive w yargsOption = Inr answers"
    and "Copy projectDir templateDir v \<in> set (snd (create w appName opts cwd))"
  shows "projectDir = create_projectDir w opts cwd firstArg project
       \<and> v = view (filteredArgs answers) project (now_year w)
               (getContact (obj_get answers ''author'') (obj_get answers ''email''))
       \<and> (distinct (map fst answers) \<longrightarrow>
           map_of v k =
             (if k = ''contact''
            then Some (JStr (getContact (obj_get answers ''author'') (obj_get answers ''email'')))
            else if k = ''year'' then Some (JNum (now_year w))
            else if k = ''name'' then Some (JStr project)
            else if k = [] \<or> hd k = CHR ''$'' \<or> hd k = CHR ''_''
                    \<or> k = ''interactive'' \<or> k = ''template'' then None
            else map_of answers k))"
proof -
  from create_copy_and_write [OF assms(5)] assms(1-4)
  have "projectDir = create_projectDir w opts cwd firstArg project"
    and v: "v = view (filteredArgs answers) project (now_year w)
                  (getContact (obj_get answers ''author'') (obj_get answers ''email''))"
    by auto
  then show ?thesis
    by (simp add: view_def update_conv' map_of_js_spread_filteredArgs key_kept_iff)
qed

text \<open>C3 on the concrete world and its answers.\<close>

theorem view_projection_witness:
  "Copy ''/home/ada/demo'' ''/tpl/default''
      [(''description'', JStr ''a demo''), (''author'', JStr ''Ada''),
       (''email'', JStr ''ada@example.org''), (''license'', JStr ''MIT''),
       (''name'', JStr ''demo''), (''year'', JNum 2026),
       (''contact'', JStr ''Ada <ada@example.org>'')]
     \<in> set (snd (create ex_env ''app'' ex_opts ''/home/ada''))
   \<and> ''/home/ada/demo'' = create_projectDir ex_env ex_opts ''/home/ada'' ''demo'' ''demo''
   \<and> [(''description'', JStr ''a demo''), (''author'', JStr ''Ada''),
       (''email'', JStr ''ada@example.org''), (''license'', JStr ''MIT''),
       (''name'', JStr ''demo''), (''year'', JNum 2026),
       (''contact'', JStr ''Ada <ada@example.org>'')]
     = view (filteredArgs ex_args) ''demo'' 2026 ''Ada <ada@example.org>''
   \<and> distinct (map fst ex_args)
   \<and> map_of [(''description'', JStr ''a demo''), (''author'', JStr ''Ada''),
       (''email'', JStr ''ada@example.org''), (''license'', JStr ''MIT''),
       (''name'', JStr ''demo''), (''year'', JNum 2026),
       (''contact'', JStr ''Ada <ada@example.org>'')] ''author'' = map_of ex_args ''author''
   \<and> map_of [(''description'', JStr ''a demo''), (''author'', JStr ''Ada''),
       (''email'', JStr ''ada@example.org''), (''license'', JStr ''MIT''),
       (''name'', JStr ''demo''), (''year'', JNum 2026),
       (''contact'', JStr ''Ada <ada@example.org>'')] ''$0'' = None
   \<and> map_of [(''description'', JStr ''a demo''), (''author'', JStr ''Ada''),
       (''email'', JStr ''ada@example.org''), (''license'', JStr ''MIT''),
       (''name'', JStr ''demo''), (''year'', JNum 2026),
       (''contact'', JStr ''Ada <ada@example.org>'')] ''template'' = None
   \<and> map_of [(''description'', JStr ''a demo''), (''author'', JStr ''Ada''),
       (''email'', JStr ''ada@example.org''), (''license'', JStr ''MIT''),
       (''name'', JStr ''demo''), (''year'', JNum 2026),
       (''contact'', JStr ''Ada <ada@example.org>'')] ''name'' = Some (JStr ''demo'')"
proof -
  let ?v = "[(''description'', JStr ''a demo''), (''author'', JStr ''Ada''),
       (''email'', JStr ''ada@example.org''), (''license'', JStr ''MIT''),
       (''name'', JStr ''demo''), (''year'', JNum 2026),
       (''contact'', JStr ''Ada <ada@example.org>'')]"
  have a: "argv2 ex_env = Some ''demo''"
    by (simp add: ex_env_def)
  have n: "fst (create_name ex_env ex_opts ''/home/ada'' ''demo'') = Inr ''demo''"
    by code_simp
  have "case fst (getYargsOptions ex_env (opt_templateRoot ex_opts)
                   (case opt_templatePrefix ex_opts of None \<Rightarrow> [] | Some p \<Rightarrow> p)
                   (case opt_promptForTemplate ex_opts of None \<Rightarrow> False | Some b \<Rightarrow> b)
                   (case opt_defaultTemplate ex_opts of None \<Rightarrow> ''default'' | Some t \<Rightarrow> t)
                   True (opt_extra ex_opts)) of Inl e \<Rightarrow> False | Inr s \<Rightarrow> True"
    by code_simp
  then obtain s where s: "fst (getYargsOptions ex_env (opt_templateRoot ex_opts)
                   (case opt_templatePrefix ex_opts of None \<Rightarrow> [] | Some p \<Rightarrow> p)
                   (case opt_promptForTemplate ex_opts of None \<Rightarrow> False | Some b \<Rightarrow> b)
                   (case opt_defaultTemplate ex_opts of None \<Rightarrow> ''default'' | Some t \<Rightarrow> t)
                   True (opt_extra ex_opts)) = Inr s"
    by (auto split: sum.splits)
  have y: "yargsInteractive ex_env s = Inr ex_args"
    by (simp add: ex_env_def)
  have c: "Copy ''/home/ada/demo'' ''/tpl/default'' ?v
             \<in> set (snd (create ex_env ''app'' ex_opts ''/home/ada''))"
    by code_simp
  have d: "distinct (map fst ex_args)"
    by code_simp
  have g: "getContact (obj_get ex_args ''author'') (obj_get ex_args ''email'')
             = ''Ada <ada@example.org>''"
    "now_year ex_env = 2026"
    by code_simp+
  note t = view_projection [OF a n s y c]
  from t [of "''name''"] g
  have 1: "''/home/ada/demo'' = create_projectDir ex_env ex_opts ''/home/ada'' ''demo'' ''demo''"
    "?v = view (filteredArgs ex_args) ''demo'' 2026 ''Ada <ada@example.org>''"
    by simp_all
  have 5: "map_of ?v ''name'' = Some (JStr ''demo'')"
    by simp
  note m = t [THEN conjunct2, THEN conjunct2, THEN mp, OF d]
  from m [of "''author''"]
  have 2: "map_of ?v ''author'' = map_of ex_args ''author''"
    by simp
  from m [of "''$0''"]
  have 3: "map_of ?v ''$0'' = None"
    by simp
  from m [of "''template''"]
  have 4: "map_of ?v ''template'' = None"
    by simp
  from c d 1 2 3 4 5 show ?thesis
    by blast
qed

text \<open>
  C3 as stated fails: let the answers hold \<^verbatim>\<open>given\<close> under the key \<^verbatim>\<open>name\<close> (from
  \<^verbatim>\<open>--name given\<close>, say). The key passes the filter, yet the view \<^verbatim>\<open>create\<close> passes to
  \<^verbatim>\<open>copy\<close> carries the project name \<^verbatim>\<open>demo\<close> under it, not the answer.
\<close>

theorem view_projection_counterexample:
  "map_of (ex_args @ [(''name'', JStr ''given'')]) ''name'' = Some (JStr ''given'')
   \<and> key_kept ''name''
   \<and> Copy ''/home/ada/demo'' ''/tpl/default''
       [(''description'', JStr ''a demo''), (''author'', JStr ''Ada''),
        (''email'', JStr ''ada@example.org''), (''license'', JStr ''MIT''),
        (''name'', JStr ''demo''), (''year'', JNum 2026),
        (''contact'', JStr ''Ada <ada@example.org>'')]
     \<in> set (snd (create
         (ex_env\<lparr>yargsInteractive := (\<lambda>s. Inr (ex_args @ [(''name'', JStr ''given'')]))\<rparr>)
         ''app'' ex_opts ''/home/ada''))
   \<and> [ev \<leftarrow> snd (create
         (ex_env\<lparr>yargsInteractive := (\<lambda>s. Inr (ex_args @ [(''name'', JStr ''given'')]))\<rparr>)
         ''app'' ex_opts ''/home/ada'').
       case ev of Copy pd td v \<Rightarrow> True | _ \<Rightarrow> False]
     = [Copy ''/home/ada/demo'' ''/tpl/default''
       [(''description'', JStr ''a demo''), (''author'', JStr ''Ada''),
        (''email'', JStr ''ada@example.org''), (''license'', JStr ''MIT''),
        (''name'', JStr ''demo''), (''year'', JNum 2026),
        (''contact'', JStr ''Ada <ada@example.org>'')]]"
  by code_simp

text \<open>
  Claim C4, as amended: when \<^verbatim>\<open>readdir\<close> lists \<^verbatim>\<open>projectDir\<close> and finds entries, \<^verbatim>\<open>create\<close>
  rejects with the error \<^verbatim>\<open>"<projectDir> is not empty."\<close>. A destination that is empty or
  does not exist (\<^verbatim>\<open>ENOENT\<close>) passes the check and \<^verbatim>\<open>create\<close> goes on with the schema.
  When the listing fails in any other way (a directory that cannot be read, a file in
  the place of the directory), \<^verbatim>\<open>create\<close> rejects with that error of the file system.
  Whenever \<^verbatim>\<open>create\<close> rejects here, beyond the name transform it has only printed the
  announcement and read the directory: nothing is copied, written or spawned.
\<close>

theorem create_destination_check:
  assumes "argv2 w = Some firstArg"
    and "create_name w opts cwd firstArg = (Inr name, evs)"
    and "projectDir = create_projectDir w opts cwd firstArg name"
  shows "(fs_readdir w projectDir = Inr entries \<and> entries \<noteq> [] \<longrightarrow>
          create w appName opts cwd =
            (Inl (Error (projectDir @ '' is not empty.'')),
             evs @ [ConsoleLog (''\<newline>New project will be created in ''
                      @ chalk_green w projectDir @ ''.\<newline>''),
                    ReadDir projectDir]))
       \<and> (fs_readdir w projectDir = Inr [] \<or> fs_readdir w projectDir = Inl (SysError ''ENOENT'') \<longrightarrow>
          isEmptyDir w projectDir = (Inr True, [ReadDir projectDir]) \<and>
          create w appName opts cwd =
            (fst (create_configure w opts cwd name projectDir),
             evs @ [ConsoleLog (''\<newline>New project will be created in ''
                      @ chalk_green w projectDir @ ''.\<newline>''),
                    ReadDir projectDir]
               @ snd (create_configure w opts cwd name projectDir)))
       \<and> (fs_readdir w projectDir = Inl err \<and> err_code err \<noteq> Some ''ENOENT'' \<longrightarrow>
          create w appName opts cwd =
            (Inl err,
             evs @ [ConsoleLog (''\<newline>New project will be created in ''
                      @ chalk_green w projectDir @ ''.\<newline>''),
                    ReadDir projectDir]))
       \<and> set evs \<subseteq> {ModifyName firstArg}"
  using assms
  by (auto simp: create_def console_log_def isEmptyDir_eq throw_def create_name_def Let_def ret_def call_def
      split: if_splits option.splits)

text \<open>
  C4 on the concrete world: a destination holding a README, one that is not there, and
  one that is a file.
\<close>

theorem create_destination_check_witness:
  "create (ex_env\<lparr>fs_readdir := (\<lambda>d. Inr [''README.md''])\<rparr>) ''app'' ex_opts ''/home/ada'' =
     (Inl (Error ''/home/ada/demo is not empty.''),
      [ConsoleLog ''\<newline>New project will be created in /home/ada/demo.\<newline>'',
       ReadDir ''/home/ada/demo''])
   \<and> isEmptyDir ex_env ''/home/ada/demo'' = (Inr True, [ReadDir ''/home/ada/demo''])
   \<and> fst (create ex_env ''app'' ex_opts ''/home/ada'') = Inr ()
   \<and> create (ex_env\<lparr>fs_readdir := (\<lambda>d. Inl (SysError ''ENOTDIR''))\<rparr>) ''app'' ex_opts
       ''/home/ada'' =
     (Inl (SysError ''ENOTDIR''),
      [ConsoleLog ''\<newline>New project will be created in /home/ada/demo.\<newline>'',
       ReadDir ''/home/ada/demo''])"
proof -
  let ?w = "ex_env\<lparr>fs_readdir := (\<lambda>d. Inr [''README.md''])\<rparr>"
  let ?v = "ex_env\<lparr>fs_readdir := (\<lambda>d. Inl (SysError ''ENOTDIR''))\<rparr>"
  have a: "argv2 ?w = Some ''demo''" "argv2 ex_env = Some ''demo''" "argv2 ?v = Some ''demo''"
    by (simp_all add: ex_env_def)
  have n: "create_name ?w ex_opts ''/home/ada'' ''demo'' = (Inr ''demo'', [])"
    "create_name ex_env ex_opts ''/home/ada'' ''demo'' = (Inr ''demo'', [])"
    "create_name ?v ex_opts ''/home/ada'' ''demo'' = (Inr ''demo'', [])"
    by code_simp+
  have p: "''/home/ada/demo'' = create_projectDir ?w ex_opts ''/home/ada'' ''demo'' ''demo''"
    "''/home/ada/demo'' = create_projectDir ex_env ex_opts ''/home/ada'' ''demo'' ''demo''"
    "''/home/ada/demo'' = create_projectDir ?v ex_opts ''/home/ada'' ''demo'' ''demo''"
    by code_simp+
  have r: "fs_readdir ?w ''/home/ada/demo'' = Inr [''README.md'']"
    "fs_readdir ex_env ''/home/ada/demo'' = Inl (SysError ''ENOENT'')"
    "fs_readdir ?v ''/home/ada/demo'' = Inl (SysError ''ENOTDIR'')"
    by (simp_all add: ex_env_def)
  have g: "chalk_green ?w ''/home/ada/demo'' = ''/home/ada/demo''"
    "chalk_green ?v ''/home/ada/demo'' = ''/home/ada/demo''"
    by (simp_all add: ex_env_def)
  have f: "fst (create_configure ex_env ex_opts ''/home/ada'' ''demo'' ''/home/ada/demo'') = Inr ()"
    by code_simp
  from create_destination_check [OF a(1) n(1) p(1), of "[''README.md'']" "''app''"] r(1) g(1)
  have 1: "create ?w ''app'' ex_opts ''/home/ada'' =
     (Inl (Error ''/home/ada/demo is not empty.''),
      [ConsoleLog ''\<newline>New project will be created in /home/ada/demo.\<newline>'',
       ReadDir ''/home/ada/demo''])"
    by simp
  from create_destination_check [OF a(2) n(2) p(2), of "[]" "''app''"] r(2) f
  have 2: "isEmptyDir ex_env ''/home/ada/demo'' = (Inr True, [ReadDir ''/home/ada/demo''])"
    "fst (create ex_env ''app'' ex_opts ''/home/ada'') = Inr ()"
    by simp_all
  from create_destination_check
    [OF a(3) n(3) p(3), of "[]" "''app''" "SysError ''ENOTDIR''"] r(3) g(2)
  have 3: "create ?v ''app'' ex_opts ''/home/ada'' =
     (Inl (SysError ''ENOTDIR''),
      [ConsoleLog ''\<newline>New project will be created in /home/ada/demo.\<newline>'',
       ReadDir ''/home/ada/demo''])"
    by simp
  from 1 2 3 show ?thesis by simp
qed

text \<open>
  C4 as stated fails: for a destination that exists and holds files but cannot be read,
  \<^verbatim>\<open>readdir\<close> rejects with \<^verbatim>\<open>EACCES\<close>; \<^verbatim>\<open>isEmptyDir\<close> rethrows what is not \<^verbatim>\<open>ENOENT\<close>
  (line 95), and \<^verbatim>\<open>create\<close> rejects with that error, not with the error
  \<^verbatim>\<open>"... is not empty."\<close>.
\<close>

theorem create_destination_check_counterexample:
  "fs_readdir (ex_env\<lparr>fs_readdir := (\<lambda>d. Inl (SysError ''EACCES''))\<rparr>) ''/home/ada/demo''
     = Inl (SysError ''EACCES'')
   \<and> create (ex_env\<lparr>fs_readdir := (\<lambda>d. Inl (SysError ''EACCES''))\<rparr>) ''app'' ex_opts ''/home/ada''
     = (Inl (SysError ''EACCES''),
        [ConsoleLog ''\<newline>New project will be created in /home/ada/demo.\<newline>'',
         ReadDir ''/home/ada/demo''])
   \<and> Inl (SysError ''EACCES'')
       \<noteq> (Inl (Error ''/home/ada/demo is not empty.'') :: jserr + unit)"
  by code_simp

text \<open>
  Claim C5: the text of the LICENSE file is header, body, warranty in that order, where
  a header or a warranty that the license lacks contributes the empty string; with all
  three sections it is their concatenation. What \<^verbatim>\<open>create\<close> writes is this text of the
  license the generator returned for the answers of the run, and it writes it to
  \<^verbatim>\<open>LICENSE\<close> in the project directory.
\<close>

theorem licenseText_concatenation:
  "licenseText license =
     (case lic_header license of None \<Rightarrow> [] | Some header \<Rightarrow> header)
     @ lic_text license
     @ (case lic_warranty license of None \<Rightarrow> [] | Some warranty \<Rightarrow> warranty)
   \<and> licenseText \<lparr>lic_header = Some h, lic_text = t, lic_warranty = Some wa\<rparr> = h @ t @ wa
   \<and> licenseText \<lparr>lic_header = None, lic_text = t, lic_warranty = Some wa\<rparr> = [] @ t @ wa
   \<and> licenseText \<lparr>lic_header = Some h, lic_text = t, lic_warranty = None\<rparr> = h @ t @ []
   \<and> licenseText \<lparr>lic_header = None, lic_text = t, lic_warranty = None\<rparr> = [] @ t @ []
   \<and> (argv2 w = Some firstArg
      \<and> fst (create_name w opts cwd firstArg) = Inr project
      \<and> fst (getYargsOptions w (opt_templateRoot opts)
                   (case opt_templatePrefix opts of None \<Rightarrow> [] | Some p \<Rightarrow> p)
                   (case opt_promptForTemplate opts of None \<Rightarrow> False | Some b \<Rightarrow> b)
                   (case opt_defaultTemplate opts of None \<Rightarrow> ''default'' | Some t \<Rightarrow> t)
                   True (opt_extra opts)) = Inr yargsOption
      \<and> yargsInteractive w yargsOption = Inr answers
      \<and> WriteFile file txt \<in> set (snd (create w appName opts cwd))
      \<longrightarrow> \<not> opt_skipLicense opts
          \<and> file = path_resolve w cwd
                     [create_projectDir w opts cwd firstArg project, ''LICENSE'']
          \<and> (\<exists>generated.
               makeLicenseSync w (obj_get answers ''license'')
                 \<lparr>lp_year = now_year w, lp_project = project,
                  lp_description = obj_get answers ''description'',
                  lp_organization =
                    getContact (obj_get answers ''author'') (obj_get answers ''email'')\<rparr>
                 = Inr generated
               \<and> txt = (case lic_header generated of None \<Rightarrow> [] | Some header \<Rightarrow> header)
                       @ lic_text generated
                       @ (case lic_warranty generated of None \<Rightarrow> []
                          | Some warranty \<Rightarrow> warranty)))"
proof -
  have t: "licenseText l =
     (case lic_header l of None \<Rightarrow> [] | Some header \<Rightarrow> header)
     @ lic_text l
     @ (case lic_warranty l of None \<Rightarrow> [] | Some warranty \<Rightarrow> warranty)" for l
    by (simp add: licenseText_def or_empty_def split: option.split)
  have "\<not> opt_skipLicense opts
          \<and> file = path_resolve w cwd
                     [create_projectDir w opts cwd firstArg project, ''LICENSE'']
          \<and> (\<exists>generated.
               makeLicenseSync w (obj_get answers ''license'')
                 \<lparr>lp_year = now_year w, lp_project = project,
                  lp_description = obj_get answers ''description'',
                  lp_organization =
                    getContact (obj_get answers ''author'') (obj_get answers ''email'')\<rparr>
                 = Inr generated
               \<and> txt = licenseText generated)"
    if "argv2 w = Some firstArg" "fst (create_name w opts cwd firstArg) = Inr project"
      "fst (getYargsOptions w (opt_templateRoot opts)
                   (case opt_templatePrefix opts of None \<Rightarrow> [] | Some p \<Rightarrow> p)
                   (case opt_promptForTemplate opts of None \<Rightarrow> False | Some b \<Rightarrow> b)
                   (case opt_defaultTemplate opts of None \<Rightarrow> ''default'' | Some t \<Rightarrow> t)
                   True (opt_extra opts)) = Inr yargsOption"
      "yargsInteractive w yargsOption = Inr answers"
      "WriteFile file txt \<in> set (snd (create w appName opts cwd))"
    using create_copy_and_write [OF that(5)] that(1-4) by auto
  then show ?thesis
    by (simp add: t)
qed

text \<open>
  C5 on the concrete world, whose generator returns a body only, and on a license
  with the three sections.
\<close>

theorem licenseText_concatenation_witness:
  "WriteFile ''/home/ada/demo/LICENSE'' ''MIT License''
     \<in> set (snd (create ex_env ''app'' ex_opts ''/home/ada''))
   \<and> opt_skipLicense ex_opts = False
   \<and> ''/home/ada/demo/LICENSE''
       = path_resolve ex_env ''/home/ada''
           [create_projectDir ex_env ex_opts ''/home/ada'' ''demo'' ''demo'', ''LICENSE'']
   \<and> (\<exists>generated.
         makeLicenseSync ex_env (obj_get ex_args ''license'')
           \<lparr>lp_year = now_year ex_env, lp_project = ''demo'',
            lp_description = obj_get ex_args ''description'',
            lp_organization =
              getContact (obj_get ex_args ''author'') (obj_get ex_args ''email'')\<rparr>
           = Inr generated
         \<and> ''MIT License'' = (case lic_header generated of None \<Rightarrow> [] | Some header \<Rightarrow> header)
                       @ lic_text generated
                       @ (case lic_warranty generated of None \<Rightarrow> []
                          | Some warranty \<Rightarrow> warranty))
   \<and> licenseText \<lparr>lic_header = Some ''H'', lic_text = ''T'', lic_warranty = Some ''W''\<rparr>
       = ''HTW''"
proof -
  have a: "argv2 ex_env = Some ''demo''"
    by (simp add: ex_env_def)
  have n: "fst (create_name ex_env ex_opts ''/home/ada'' ''demo'') = Inr ''demo''"
    by code_simp
  have "case fst (getYargsOptions ex_env (opt_templateRoot ex_opts)
                   (case opt_templatePrefix ex_opts of None \<Rightarrow> [] | Some p \<Rightarrow> p)
                   (case opt_promptForTemplate ex_opts of None \<Rightarrow> False | Some b \<Rightarrow> b)
                   (case opt_defaultTemplate ex_opts of None \<Rightarrow> ''default'' | Some t \<Rightarrow> t)
                   True (opt_extra ex_opts)) of Inl e \<Rightarrow> False | Inr s \<Rightarrow> True"
    by code_simp
  then obtain s where s: "fst (getYargsOptions ex_env (opt_templateRoot ex_opts)
                   (case opt_templatePrefix ex_opts of None \<Rightarrow> [] | Some p \<Rightarrow> p)
                   (case opt_promptForTemplate ex_opts of None \<Rightarrow> False | Some b \<Rightarrow> b)
                   (case opt_defaultTemplate ex_opts of None \<Rightarrow> ''default'' | Some t \<Rightarrow> t)
                   True (opt_extra ex_opts)) = Inr s"
    by (auto split: sum.splits)
  have y: "yargsInteractive ex_env s = Inr ex_args"
    by (simp add: ex_env_def)
  have m: "WriteFile ''/home/ada/demo/LICENSE'' ''MIT License''
             \<in> set (snd (create ex_env ''app'' ex_opts ''/home/ada''))"
    by code_simp
  from licenseText_concatenation
    [of "\<lparr>lic_header = Some ''H'', lic_text = ''T'', lic_warranty = Some ''W''\<rparr>"
        "''H''" "''T''" "''W''" ex_env "''demo''" ex_opts "''/home/ada''" "''demo''" s ex_args
        "''/home/ada/demo/LICENSE''" "''MIT License''" "''app''"] a n s y m
  show ?thesis
    by simp
qed

text \<open>
  Claim C6: with yarn, \<^verbatim>\<open>installDeps\<close> spawns \<^verbatim>\<open>yarnpkg install --cwd <rootDir>\<close> and leaves
  the working directory as it was. With npm, no argument of a spawned command is
  \<^verbatim>\<open>--cwd\<close>, the command runs in \<^verbatim>\<open>rootDir\<close> and the working directory is \<^verbatim>\<open>rootDir\<close>
  afterwards: \<^verbatim>\<open>npm install\<close> is spawned once \<^verbatim>\<open>process.chdir\<close> has succeeded. When
  \<^verbatim>\<open>process.chdir\<close> throws, nothing is spawned and its error is the outcome.
\<close>

theorem installDeps_working_directory:
  "(useYarn \<longrightarrow>
      snd (fst (installDeps w rootDir useYarn cwd))
        = [Spawn ''yarnpkg'' [''install'', ''--cwd'', rootDir] cwd]
      \<and> snd (installDeps w rootDir useYarn cwd) = cwd)
   \<and> (\<not> useYarn \<longrightarrow>
      (\<forall>command args dir. Spawn command args dir \<in> set (snd (fst (installDeps w rootDir useYarn cwd)))
         \<longrightarrow> ''--cwd'' \<notin> set args \<and> dir = rootDir
             \<and> snd (installDeps w rootDir useYarn cwd) = rootDir))
   \<and> (\<not> useYarn \<and> process_chdir w rootDir = None \<longrightarrow>
      snd (fst (installDeps w rootDir useYarn cwd))
        = [Chdir rootDir, Spawn ''npm'' [''install''] rootDir]
      \<and> snd (installDeps w rootDir useYarn cwd) = rootDir)
   \<and> (\<not> useYarn \<and> process_chdir w rootDir = Some e \<longrightarrow>
      installDeps w rootDir useYarn cwd = ((Inl e, [Chdir rootDir]), cwd))"
  by (auto simp: installDeps_def spawnPromise_def split: option.split prod.split if_splits)

text \<open>C6 on the concrete world: yarn, npm, and npm with a directory that cannot be entered.\<close>

theorem installDeps_working_directory_witness:
  "installDeps ex_env ''/home/ada/demo'' True ''/home/ada''
     = ((Inr (), [Spawn ''yarnpkg'' [''install'', ''--cwd'', ''/home/ada/demo''] ''/home/ada'']),
        ''/home/ada'')
   \<and> installDeps ex_env ''/home/ada/demo'' False ''/home/ada''
     = ((Inr (), [Chdir ''/home/ada/demo'', Spawn ''npm'' [''install''] ''/home/ada/demo'']),
        ''/home/ada/demo'')
   \<and> installDeps (ex_env\<lparr>process_chdir := (\<lambda>d. Some (SysError ''ENOENT''))\<rparr>)
        ''/home/ada/demo'' False ''/home/ada''
     = ((Inl (SysError ''ENOENT''), [Chdir ''/home/ada/demo'']), ''/home/ada'')"
proof -
  let ?w = "ex_env\<lparr>process_chdir := (\<lambda>d. Some (SysError ''ENOENT''))\<rparr>"
  have c: "process_chdir ex_env ''/home/ada/demo'' = None"
    "process_chdir ?w ''/home/ada/demo'' = Some (SysError ''ENOENT'')"
    by (simp_all add: ex_env_def)
  have r: "fst (fst (installDeps ex_env ''/home/ada/demo'' True ''/home/ada'')) = Inr ()"
    "fst (fst (installDeps ex_env ''/home/ada/demo'' False ''/home/ada'')) = Inr ()"
    by code_simp+
  from installDeps_working_directory [of True ex_env "''/home/ada/demo''" "''/home/ada''"] r(1)
  have 1: "installDeps ex_env ''/home/ada/demo'' True ''/home/ada''
     = ((Inr (), [Spawn ''yarnpkg'' [''install'', ''--cwd'', ''/home/ada/demo''] ''/home/ada'']),
        ''/home/ada'')"
    by (simp add: prod_eq_iff)
  from installDeps_working_directory [of False ex_env "''/home/ada/demo''" "''/home/ada''"] r(2) c(1)
  have 2: "installDeps ex_env ''/home/ada/demo'' False ''/home/ada''
     = ((Inr (), [Chdir ''/home/ada/demo'', Spawn ''npm'' [''install''] ''/home/ada/demo'']),
        ''/home/ada/demo'')"
    by (simp add: prod_eq_iff)
  from installDeps_working_directory
    [of False ?w "''/home/ada/demo''" "''/home/ada''" "SysError ''ENOENT''"] c(2)
  have 3: "installDeps ?w ''/home/ada/demo'' False ''/home/ada''
     = ((Inl (SysError ''ENOENT''), [Chdir ''/home/ada/demo'']), ''/home/ada'')"
    by simp
  from 1 2 3 show ?thesis by simp
qed



text \<open>
  Claim C8, as amended: when the templates can be listed, the schema is assembled.
  If \<^verbatim>\<open>extraOptions\<close> has no entry \<^verbatim>\<open>template\<close>, the prompt policy of the \<^verbatim>\<open>template\<close>
  option is \<^verbatim>\<open>if-no-arg\<close> if more than one template is available and the caller opted
  in to prompting, and \<^verbatim>\<open>never\<close> otherwise: with one template or none it is \<^verbatim>\<open>never\<close>
  whatever \<^verbatim>\<open>promptForTemplate\<close> is. For every key that \<^verbatim>\<open>extraOptions\<close> (an object: each
  key once) defines, \<^verbatim>\<open>template\<close> included, the entry of the schema is the entry of
  \<^verbatim>\<open>extraOptions\<close>, prompt policy included.
\<close>

theorem getYargsOptions_template_prompt:
  assumes "getAvailableTemplates w templateRoot templatePrefix = Inr availableTemplates"
  shows "\<exists>yargsOption.
           getYargsOptions w templateRoot templatePrefix promptForTemplate defaultTemplate
               skipLicense extraOptions
             = (Inr yargsOption, [GitConfigGet, GetAvailableTemplates templateRoot templatePrefix])
           \<and> (''template'' \<notin> fst ` set (case extraOptions of None \<Rightarrow> [] | Some e \<Rightarrow> e) \<longrightarrow>
                prompt_of yargsOption ''template''
                  = Some (if 1 < length availableTemplates \<and> promptForTemplate then IfNoArg
                          else Never))
           \<and> (\<forall>k d. distinct (map fst (case extraOptions of None \<Rightarrow> [] | Some e \<Rightarrow> e))
                    \<and> map_of (case extraOptions of None \<Rightarrow> [] | Some e \<Rightarrow> e) k = Some d \<longrightarrow>
                    map_of yargsOption k = Some d \<and> prompt_of yargsOption k = d_prompt d)"
  using assms
  by (simp add: getYargsOptions_def getGitUser_eq prim_defs Let_def prompt_of_def
      map_of_js_spread_other map_of_js_spread_defined)

text \<open>
  C8 on the concrete world, the caller opting in: one template, the two templates
  \<^verbatim>\<open>default\<close> and \<^verbatim>\<open>ts\<close>, and one template with a \<^verbatim>\<open>template\<close> entry of the policy
  \<^verbatim>\<open>if-no-arg\<close> in \<^verbatim>\<open>extraOptions\<close>.
\<close>

theorem getYargsOptions_template_prompt_witness:
  "(\<exists>yargsOption.
      getYargsOptions ex_env ''/tpl'' [] True ''default'' True None
        = (Inr yargsOption, [GitConfigGet, GetAvailableTemplates ''/tpl'' []])
      \<and> prompt_of yargsOption ''template'' = Some Never)
   \<and> (\<exists>yargsOption.
      getYargsOptions (ex_env\<lparr>getAvailableTemplates := (\<lambda>root prefix. Inr [''default'', ''ts''])\<rparr>)
          ''/tpl'' [] True ''default'' True None
        = (Inr yargsOption, [GitConfigGet, GetAvailableTemplates ''/tpl'' []])
      \<and> prompt_of yargsOption ''template'' = Some IfNoArg)
   \<and> (\<exists>yargsOption.
      getYargsOptions ex_env ''/tpl'' [] False ''default'' True
          (Some [(''template'',
                  \<lparr>d_type = Some ''list'', d_describe = Some ''which'',
                   d_default = JStr ''default'', d_prompt = Some IfNoArg,
                   d_choices = Some [''default'']\<rparr>)])
        = (Inr yargsOption, [GitConfigGet, GetAvailableTemplates ''/tpl'' []])
      \<and> map_of yargsOption ''template''
          = Some \<lparr>d_type = Some ''list'', d_describe = Some ''which'',
                   d_default = JStr ''default'', d_prompt = Some IfNoArg,
                   d_choices = Some [''default'']\<rparr>
      \<and> prompt_of yargsOption ''template'' = Some IfNoArg)"
proof -
  let ?w = "ex_env\<lparr>getAvailableTemplates := (\<lambda>root prefix. Inr [''default'', ''ts''])\<rparr>"
  let ?d = "\<lparr>d_type = Some ''list'', d_describe = Some ''which'',
                   d_default = JStr ''default'', d_prompt = Some IfNoArg,
                   d_choices = Some [''default'']\<rparr>"
  have t: "getAvailableTemplates ex_env ''/tpl'' [] = Inr [''default'']"
    "getAvailableTemplates ?w ''/tpl'' [] = Inr [''default'', ''ts'']"
    by (simp_all add: ex_env_def)
  from getYargsOptions_template_prompt [OF t(1), of True "''default''" True None]
  have 1: "\<exists>yargsOption.
      getYargsOptions ex_env ''/tpl'' [] True ''default'' True None
        = (Inr yargsOption, [GitConfigGet, GetAvailableTemplates ''/tpl'' []])
      \<and> prompt_of yargsOption ''template'' = Some Never"
    by simp
  from getYargsOptions_template_prompt [OF t(2), of True "''default''" True None]
  have 2: "\<exists>yargsOption.
      getYargsOptions ?w ''/tpl'' [] True ''default'' True None
        = (Inr yargsOption, [GitConfigGet, GetAvailableTemplates ''/tpl'' []])
      \<and> prompt_of yargsOption ''template'' = Some IfNoArg"
    by simp
  from getYargsOptions_template_prompt
    [OF t(1), of False "''default''" True "Some [(''template'', ?d)]"]
  obtain s where s: "getYargsOptions ex_env ''/tpl'' [] False ''default'' True
          (Some [(''template'', ?d)])
        = (Inr s, [GitConfigGet, GetAvailableTemplates ''/tpl'' []])"
    and e: "\<forall>k d. distinct (map fst [(''template'', ?d)])
                    \<and> map_of [(''template'', ?d)] k = Some d \<longrightarrow>
                    map_of s k = Some d \<and> prompt_of s k = d_prompt d"
    by auto
  from e have "map_of s ''template'' = Some ?d \<and> prompt_of s ''template'' = d_prompt ?d"
    by simp
  with s have 3: "\<exists>yargsOption.
      getYargsOptions ex_env ''/tpl'' [] False ''default'' True (Some [(''template'', ?d)])
        = (Inr yargsOption, [GitConfigGet, GetAvailableTemplates ''/tpl'' []])
      \<and> map_of yargsOption ''template'' = Some ?d
      \<and> prompt_of yargsOption ''template'' = Some IfNoArg"
    by simp
  from 1 2 3 show ?thesis
    by blast
qed

text \<open>
  C8 as stated fails: \<^verbatim>\<open>extraOptions\<close> is spread last, so a caller's own \<^verbatim>\<open>template\<close> entry
  replaces the assembled one, here with the policy \<^verbatim>\<open>always\<close> although a single template
  is available.
\<close>

theorem getYargsOptions_template_prompt_counterexample:
  "getAvailableTemplates ex_env ''/tpl'' [] = Inr [''default'']
   \<and> map_sum id (\<lambda>yargsOption. prompt_of yargsOption ''template'')
       (fst (getYargsOptions ex_env ''/tpl'' [] False ''default'' True
          (Some [(''template'',
                  \<lparr>d_type = Some ''list'', d_describe = Some ''template'',
                   d_default = JStr ''default'', d_prompt = Some Always,
                   d_choices = Some [''default'']\<rparr>)])))
     = Inr (Some Always)"
  by code_simp

text \<open>
  Claim C9: when \<^verbatim>\<open>create\<close> calls the \<^verbatim>\<open>after\<close> hook and the hook throws or rejects with
  an error, \<^verbatim>\<open>create\<close> rejects with that same error, and the call of the hook is the
  last event of the run (and the only call of the hook): nothing is printed after it,
  neither the success message nor a caveat.
\<close>

theorem create_hook_error_propagates:
  assumes "opt_after opts = Some hook"
    and "HookCall ctx \<in> set (snd (create w appName opts cwd))"
    and "hook ctx = Some e"
  shows "fst (create w appName opts cwd) = Inl e
         \<and> (\<exists>pre. snd (create w appName opts cwd) = pre @ [HookCall ctx]
                \<and> (\<forall>c. HookCall c \<notin> set pre))"
  using hook_failure_last_create [OF assms(1), of w appName cwd] assms(2,3)
  unfolding hook_failure_last_def by blast

text \<open>C9 on the concrete world, with a hook that throws \<^verbatim>\<open>Error("boom")\<close> and a caveat.\<close>

theorem create_hook_error_propagates_witness:
  "fst (create ex_env ''app''
          (ex_opts\<lparr>opt_after := Some (\<lambda>c. Some (Error ''boom'')),
             opt_caveat := Some (CaveatString ''cd demo'')\<rparr>) ''/home/ada'')
     = Inl (Error ''boom'')
   \<and> (\<exists>pre. snd (create ex_env ''app''
                 (ex_opts\<lparr>opt_after := Some (\<lambda>c. Some (Error ''boom'')),
                    opt_caveat := Some (CaveatString ''cd demo'')\<rparr>) ''/home/ada'')
               = pre @ [HookCall
                    \<lparr>ctx_name = ''demo'', ctx_projectDir = ''/home/ada/demo'',
                     ctx_template = JStr ''default'', ctx_templateDir = ''/tpl/default'',
                     ctx_year = 2026,
                     ctx_answers =
                       [(''description'', JStr ''a demo''), (''author'', JStr ''Ada''),
                        (''email'', JStr ''ada@example.org''), (''license'', JStr ''MIT''),
                        (''contact'', JStr ''Ada <ada@example.org>'')]\<rparr>]
          \<and> (\<forall>c. HookCall c \<notin> set pre))"
proof -
  let ?o = "ex_opts\<lparr>opt_after := Some (\<lambda>c. Some (Error ''boom'')),
              opt_caveat := Some (CaveatString ''cd demo'')\<rparr>"
  let ?c = "\<lparr>ctx_name = ''demo'', ctx_projectDir = ''/home/ada/demo'',
             ctx_template = JStr ''default'', ctx_templateDir = ''/tpl/default'',
             ctx_year = 2026,
             ctx_answers =
               [(''description'', JStr ''a demo''), (''author'', JStr ''Ada''),
                (''email'', JStr ''ada@example.org''), (''license'', JStr ''MIT''),
                (''contact'', JStr ''Ada <ada@example.org>'')]\<rparr>"
  have a: "opt_after ?o = Some (\<lambda>c. Some (Error ''boom''))"
    by simp
  have l: "last (snd (create ex_env ''app'' ?o ''/home/ada'')) = HookCall ?c"
    "snd (create ex_env ''app'' ?o ''/home/ada'') \<noteq> []"
    by code_simp+
  then have m: "HookCall ?c \<in> set (snd (create ex_env ''app'' ?o ''/home/ada''))"
    by (metis last_in_set)
  from create_hook_error_propagates [OF a m] show ?thesis
    by simp
qed

text \<open>
  Claim C10: when the first argument is \<^verbatim>\<open>"."\<close>, \<^verbatim>\<open>name\<close> is the basename of the working
  directory and \<^verbatim>\<open>projectDir\<close> is the working directory, whatever \<^verbatim>\<open>modifyName\<close> and
  \<^verbatim>\<open>defaultPath\<close> are; \<^verbatim>\<open>modifyName\<close> is not called, and \<^verbatim>\<open>create\<close> goes on with these
  two values.
\<close>

theorem create_current_directory:
  "create_name w opts cwd ''.'' = (Inr (path_basename w cwd), [])
   \<and> create_projectDir w opts cwd ''.'' name = cwd
   \<and> (argv2 w = Some ''.'' \<longrightarrow>
        create w appName opts cwd =
          bind (console_log (''\<newline>New project will be created in '' @ chalk_green w cwd
                  @ ''.\<newline>'')) (\<lambda>u.
          bind (isEmptyDir w cwd) (\<lambda>empty.
            if \<not> empty then throw (Error (cwd @ '' is not empty.''))
            else create_configure w opts cwd (path_basename w cwd) cwd)))"
  by (simp add: create_name_def create_projectDir_def create_def ret_def)

text \<open>
  C10 on the concrete world, run in \<^verbatim>\<open>/home/ada/x\<close> with a \<^verbatim>\<open>modifyName\<close> that would
  prefix the name and a \<^verbatim>\<open>defaultPath\<close> elsewhere.
\<close>

theorem create_current_directory_witness:
  "create_name ex_env (ex_opts\<lparr>opt_modifyName := Some (\<lambda>s. Inr (''my-'' @ s)),
        opt_defaultPath := Some ''/srv''\<rparr>) ''/home/ada/x'' ''.'' = (Inr ''x'', [])
   \<and> create_projectDir ex_env (ex_opts\<lparr>opt_modifyName := Some (\<lambda>s. Inr (''my-'' @ s)),
        opt_defaultPath := Some ''/srv''\<rparr>) ''/home/ada/x'' ''.'' ''x'' = ''/home/ada/x''
   \<and> fst (create (ex_env\<lparr>argv2 := Some ''.''\<rparr>) ''app''
        (ex_opts\<lparr>opt_modifyName := Some (\<lambda>s. Inr (''my-'' @ s)),
           opt_defaultPath := Some ''/srv''\<rparr>) ''/home/ada/x'') = Inr ()"
proof -
  let ?o = "ex_opts\<lparr>opt_modifyName := Some (\<lambda>s. Inr (''my-'' @ s)), opt_defaultPath := Some ''/srv''\<rparr>"
  let ?w = "ex_env\<lparr>argv2 := Some ''.''\<rparr>"
  have b: "path_basename ex_env ''/home/ada/x'' = ''x''"
    by code_simp
  have a: "argv2 ?w = Some ''.''"
    by simp
  have f: "fst (bind (console_log (''\<newline>New project will be created in ''
                  @ chalk_green ?w ''/home/ada/x'' @ ''.\<newline>'')) (\<lambda>u.
          bind (isEmptyDir ?w ''/home/ada/x'') (\<lambda>empty.
            if \<not> empty then throw (Error (''/home/ada/x'' @ '' is not empty.''))
            else create_configure ?w ?o ''/home/ada/x'' (path_basename ?w ''/home/ada/x'')
                   ''/home/ada/x''))) = Inr ()"
    by code_simp
  from create_current_directory [of ex_env ?o "''/home/ada/x''" "''x''" "''app''"] b
  have 1: "create_name ex_env ?o ''/home/ada/x'' ''.'' = (Inr ''x'', [])"
    "create_projectDir ex_env ?o ''/home/ada/x'' ''.'' ''x'' = ''/home/ada/x''"
    by simp_all
  from create_current_directory [of ?w ?o "''/home/ada/x''" "''x''" "''app''"] a f
  have 2: "fst (create ?w ''app'' ?o ''/home/ada/x'') = Inr ()"
    by simp
  from 1 2 show ?thesis by simp
qed

end
